theory Spec2Isabelle
  imports Complex_Main "HOL-Library.Multiset" "HOL-Library.Char_ord"
    "HOL-Library.List_Lexorder"
begin

section \<open>Strings and JavaScript values\<close>

text \<open>
  A JavaScript string is a sequence of UTF-16 code units, here integers; \<open>ascii\<close> gives
  the code units of an ASCII literal.
\<close>

type_synonym jstring = "int list"

definition ascii :: "string \<Rightarrow> jstring" where
  "ascii cs = map of_char cs"

definition is_digit :: "int \<Rightarrow> bool" where
  "is_digit u = (48 \<le> u \<and> u \<le> 57)"

definition is_lower :: "int \<Rightarrow> bool" where
  "is_lower u = (97 \<le> u \<and> u \<le> 122)"

text \<open>
  The white space and line terminators of the language, which \<open>trim\<close> strips and the class
  \<open>\s\<close> matches: TAB, LF, VT, FF, CR, SP, U+00A0, U+1680, U+2000 to U+200A, U+2028, U+2029,
  U+202F, U+205F, U+3000 and U+FEFF.
\<close>

definition is_space :: "int \<Rightarrow> bool" where
  "is_space u =
     (u \<in> set [9, 10, 11, 12, 13, 32, 160, 5760, 8232, 8233, 8239, 8287, 12288, 65279]
      \<or> (8192 \<le> u \<and> u \<le> 8202))"

definition trim :: "jstring \<Rightarrow> jstring" where
  "trim s = rev (dropWhile is_space (rev (dropWhile is_space s)))"

definition ascii_lower :: "int \<Rightarrow> int" where
  "ascii_lower u = (if 65 \<le> u \<and> u \<le> 90 then u + 32 else u)"

fun starts_with :: "jstring \<Rightarrow> jstring \<Rightarrow> bool" where
  "starts_with s [] = True"
| "starts_with [] (p # ps) = False"
| "starts_with (c # cs) (p # ps) = (c = p \<and> starts_with cs ps)"

text \<open>\<open>s.includes(t)\<close>: \<open>t\<close> occurs in \<open>s\<close> as a contiguous substring.\<close>

fun str_includes :: "jstring \<Rightarrow> jstring \<Rightarrow> bool" where
  "str_includes [] t = (t = [])"
| "str_includes (c # cs) t = (starts_with (c # cs) t \<or> str_includes cs t)"

text \<open>\<open>parts.join(sep)\<close> on an array of strings.\<close>

fun join :: "jstring \<Rightarrow> jstring list \<Rightarrow> jstring" where
  "join sep [] = []"
| "join sep [x] = x"
| "join sep (x # y # ys) = x @ sep @ join sep (y # ys)"

text \<open>
  A JavaScript number is \<open>NaN\<close>, an infinity, or a finite double, given by its value as a
  real number. The sign of zero is not modelled.
\<close>

datatype jsnum = Fin real | NaN | PosInf | NegInf

datatype jsval = Undefined | Null | Bool bool | Num jsnum | Str jstring

text \<open>
  Built-ins whose result the repository does not determine are parameters of the model:
  \<open>Number(s)\<close> and \<open>String(n)\<close>; the \<open>Intl\<close> currency formatter; \<open>localeCompare\<close> (with
  \<open>sensitivity: 'base'\<close>); the host name of \<open>new URL(u)\<close> (\<open>None\<close> when the constructor
  throws); the time value of \<open>new Date(v)\<close> in milliseconds (\<open>None\<close> for an invalid date);
  \<open>toLowerCase\<close> on a string that is not pure ASCII; and the rounding of a real number to
  the nearest double, which may be an infinity.
\<close>

record builtins =
  str_to_number :: "jstring \<Rightarrow> jsnum"
  number_to_str :: "jsnum \<Rightarrow> jstring"
  intl_currency :: "real \<Rightarrow> jstring"
  locale_compare :: "jstring \<Rightarrow> jstring \<Rightarrow> int"
  url_hostname :: "jstring \<Rightarrow> jstring option"
  date_parse :: "jsval \<Rightarrow> int option"
  lower_unicode :: "jstring \<Rightarrow> jstring"
  nearest_double :: "real \<Rightarrow> jsnum"

text \<open>
  \<open>s.toLowerCase()\<close>: on ASCII text the letters \<open>A\<close> to \<open>Z\<close> become \<open>a\<close> to \<open>z\<close>; other
  text is left to the built-in.
\<close>

definition toLowerCase :: "builtins \<Rightarrow> jstring \<Rightarrow> jstring" where
  "toLowerCase B s =
     (if list_all (\<lambda>u. 0 \<le> u \<and> u < 128) s then map ascii_lower s else lower_unicode B s)"

text \<open>
  The double for the exact result of an operation: an integer (a number whose floor and
  ceiling agree) of magnitude up to \<open>2^53\<close> is a double; any other value is rounded by the
  built-in.
\<close>

definition to_double :: "builtins \<Rightarrow> real \<Rightarrow> jsnum" where
  "to_double B x =
     (if \<lfloor>x\<rfloor> = \<lceil>x\<rceil> \<and> \<bar>x\<bar> \<le> 2 ^ 53 then Fin x else nearest_double B x)"

fun truthy :: "jsval \<Rightarrow> bool" where
  "truthy Undefined = False"
| "truthy Null = False"
| "truthy (Bool b) = b"
| "truthy (Num (Fin x)) = (x \<noteq> 0)"
| "truthy (Num NaN) = False"
| "truthy (Num PosInf) = True"
| "truthy (Num NegInf) = True"
| "truthy (Str s) = (s \<noteq> [])"

text \<open>\<open>a || b\<close>\<close>

definition js_or :: "jsval \<Rightarrow> jsval \<Rightarrow> jsval" where
  "js_or a b = (if truthy a then a else b)"

text \<open>\<open>v == null\<close>, that is \<open>v === null || v === undefined\<close>\<close>

fun nullish :: "jsval \<Rightarrow> bool" where
  "nullish Undefined = True"
| "nullish Null = True"
| "nullish _ = False"

text \<open>\<open>a ?? b\<close>\<close>

definition js_coalesce :: "jsval \<Rightarrow> jsval \<Rightarrow> jsval" where
  "js_coalesce a b = (if nullish a then b else a)"

text \<open>\<open>Number(v)\<close>\<close>

fun ToNumber :: "builtins \<Rightarrow> jsval \<Rightarrow> jsnum" where
  "ToNumber B Undefined = NaN"
| "ToNumber B Null = Fin 0"
| "ToNumber B (Bool b) = Fin (if b then 1 else 0)"
| "ToNumber B (Num n) = n"
| "ToNumber B (Str s) = str_to_number B s"

text \<open>\<open>String(v)\<close>, and \<open>v.toString()\<close> where \<open>v\<close> is neither null nor undefined\<close>

fun js_string :: "builtins \<Rightarrow> jsval \<Rightarrow> jstring" where
  "js_string B Undefined = ascii ''undefined''"
| "js_string B Null = ascii ''null''"
| "js_string B (Bool b) = (if b then ascii ''true'' else ascii ''false'')"
| "js_string B (Num n) = number_to_str B n"
| "js_string B (Str s) = s"

text \<open>\<open>Number.isFinite(n)\<close> on a number\<close>

fun isFinite :: "jsnum \<Rightarrow> bool" where
  "isFinite (Fin x) = True"
| "isFinite _ = False"

fun finite_value :: "jsnum \<Rightarrow> real option" where
  "finite_value (Fin x) = Some x"
| "finite_value _ = None"

text \<open>\<open>a === b\<close>\<close>

definition strict_eq :: "jsval \<Rightarrow> jsval \<Rightarrow> bool" where
  "strict_eq a b = (a = b \<and> a \<noteq> Num NaN)"

text \<open>
  The arithmetic of doubles: the exact result of an operation on finite operands is rounded
  to a double; the other cases are those of IEEE 754.
\<close>

fun js_sub :: "builtins \<Rightarrow> jsnum \<Rightarrow> jsnum \<Rightarrow> jsnum" where
  "js_sub B (Fin x) (Fin y) = to_double B (x - y)"
| "js_sub B NaN b = NaN"
| "js_sub B a NaN = NaN"
| "js_sub B PosInf PosInf = NaN"
| "js_sub B NegInf NegInf = NaN"
| "js_sub B PosInf b = PosInf"
| "js_sub B NegInf b = NegInf"
| "js_sub B (Fin x) PosInf = NegInf"
| "js_sub B (Fin x) NegInf = PosInf"

fun js_sign :: "jsnum \<Rightarrow> int" where
  "js_sign (Fin x) = (if x < 0 then - 1 else if x = 0 then 0 else 1)"
| "js_sign PosInf = 1"
| "js_sign NegInf = - 1"
| "js_sign NaN = 0"

fun js_mul :: "builtins \<Rightarrow> jsnum \<Rightarrow> jsnum \<Rightarrow> jsnum" where
  "js_mul B (Fin x) (Fin y) = to_double B (x * y)"
| "js_mul B NaN b = NaN"
| "js_mul B a NaN = NaN"
| "js_mul B a b =
     (if js_sign a * js_sign b = 0 then NaN
      else if 0 < js_sign a * js_sign b then PosInf else NegInf)"

fun js_div :: "builtins \<Rightarrow> jsnum \<Rightarrow> jsnum \<Rightarrow> jsnum" where
  "js_div B (Fin x) (Fin y) =
     (if y = 0 then (if x = 0 then NaN else if 0 < x then PosInf else NegInf)
      else to_double B (x / y))"
| "js_div B NaN b = NaN"
| "js_div B a NaN = NaN"
| "js_div B (Fin x) b = Fin 0"
| "js_div B a (Fin y) = (if 0 \<le> js_sign a * js_sign (Fin y) then a else js_sub B (Fin 0) a)"
| "js_div B a b = NaN"

text \<open>
  \<open>+x.toFixed(2)\<close>: \<open>toFixed\<close> takes the multiple of 1/100 nearest to the magnitude of \<open>x\<close>,
  the larger one on a tie, with the sign of \<open>x\<close>; from \<open>1e21\<close> on it prints \<open>x\<close> itself.
  The unary plus reads the digits back as a double.
\<close>

definition toFixed2 :: "builtins \<Rightarrow> jsnum \<Rightarrow> jsnum" where
  "toFixed2 B v =
     (case v of
        Fin x \<Rightarrow>
          if 10 ^ 21 \<le> \<bar>x\<bar> then Fin x
          else to_double B (sgn x * of_int \<lfloor>\<bar>x\<bar> * 100 + 1 / 2\<rfloor> / 100)
      | other \<Rightarrow> other)"

section \<open>Regular expressions\<close>

text \<open>
  A backtracking matcher for the constructs the repository's patterns use. \<open>rmatch r ic s\<close>
  lists, in the order a backtracking engine tries them, the remainders of \<open>s\<close> after each
  way \<open>r\<close> can match a prefix of \<open>s\<close>; \<open>ic\<close> is the \<open>i\<close> flag. Quantifiers are greedy.
  \<open>Rep lo None r\<close> is \<open>r{lo,}\<close>; every quantified pattern below consumes at least one
  character per iteration, so \<open>length s\<close> iterations exhaust it. The literals of the
  patterns are ASCII, and under the \<open>i\<close> flag a literal ASCII character matches the same
  letter in either case and nothing else.
\<close>

datatype cclass = Digit | Space | OneOf jstring

fun in_class :: "cclass \<Rightarrow> int \<Rightarrow> bool" where
  "in_class Digit c = is_digit c"
| "in_class Space c = is_space c"
| "in_class (OneOf cs) c = (c \<in> set cs)"

datatype regex =
    Lit jstring
  | Cls "cclass list"
  | Seq regex regex
  | Alt regex regex
  | Rep nat "nat option" regex
  | Eol

fun lit_match :: "bool \<Rightarrow> jstring \<Rightarrow> jstring \<Rightarrow> jstring list" where
  "lit_match ic [] s = [s]"
| "lit_match ic (p # ps) [] = []"
| "lit_match ic (p # ps) (c # cs) =
     (if (if ic then ascii_lower p = ascii_lower c else p = c)
      then lit_match ic ps cs else [])"

fun rep_match :: "(jstring \<Rightarrow> jstring list) \<Rightarrow> nat \<Rightarrow> nat \<Rightarrow> jstring \<Rightarrow> jstring list" where
  "rep_match f lo 0 s = (if lo = 0 then [s] else [])"
| "rep_match f lo (Suc hi) s =
     concat (map (rep_match f (lo - 1) hi) (f s)) @ (if lo = 0 then [s] else [])"

primrec rmatch :: "regex \<Rightarrow> bool \<Rightarrow> jstring \<Rightarrow> jstring list" where
  "rmatch (Lit l) = (\<lambda>ic s. lit_match ic l s)"
| "rmatch (Cls ks) = (\<lambda>ic s. case s of [] \<Rightarrow> []
     | c # t \<Rightarrow> if (\<exists>k \<in> set ks. in_class k c) then [t] else [])"
| "rmatch (Seq a b) = (\<lambda>ic s. concat (map (rmatch b ic) (rmatch a ic s)))"
| "rmatch (Alt a b) = (\<lambda>ic s. rmatch a ic s @ rmatch b ic s)"
| "rmatch (Rep lo hi r) = (\<lambda>ic s.
     rep_match (rmatch r ic) lo (case hi of Some h \<Rightarrow> h | None \<Rightarrow> max lo (length s)) s)"
| "rmatch Eol = (\<lambda>ic s. if s = [] then [s] else [])"

text \<open>
  \<open>regex_exec\<close> is \<open>s.match(r)\<close> without the \<open>g\<close> flag: the text of the leftmost match,
  \<open>None\<close> when there is none. \<open>regex_test\<close> is \<open>r.test(s)\<close>.
\<close>

fun regex_exec :: "regex \<Rightarrow> bool \<Rightarrow> jstring \<Rightarrow> jstring option" where
  "regex_exec r ic [] =
     (case rmatch r ic [] of rest # _ \<Rightarrow> Some [] | [] \<Rightarrow> None)"
| "regex_exec r ic (c # cs) =
     (case rmatch r ic (c # cs) of
        rest # _ \<Rightarrow> Some (take (length (c # cs) - length rest) (c # cs))
      | [] \<Rightarrow> regex_exec r ic cs)"

definition regex_test :: "regex \<Rightarrow> bool \<Rightarrow> jstring \<Rightarrow> bool" where
  "regex_test r ic s = (regex_exec r ic s \<noteq> None)"

definition digit :: regex where
  "digit = Cls [Digit]"

text \<open>\<open>(a|b|c)\<close> for a non-empty list of alternatives\<close>

fun alts :: "regex list \<Rightarrow> regex" where
  "alts [] = Cls []"
| "alts [r] = r"
| "alts (r # rs) = Alt r (alts rs)"

section \<open>Price parsing and the results-table row (main.js)\<close>

text \<open>
  \<open>/([0-9]{1,3}(?:,[0-9]{3})*(?:\.[0-9]{2})|[0-9]+(?:\.[0-9]{2})?)/\<close>
\<close>

definition money_re :: regex where
  "money_re =
     Alt (Seq (Rep 1 (Some 3) digit)
           (Seq (Rep 0 None (Seq (Lit (ascii '','')) (Rep 3 (Some 3) digit)))
                (Seq (Lit (ascii ''.'')) (Rep 2 (Some 2) digit))))
         (Seq (Rep 1 None digit)
              (Rep 0 (Some 1) (Seq (Lit (ascii ''.'')) (Rep 2 (Some 2) digit))))"

definition digit_val :: "int \<Rightarrow> nat" where
  "digit_val u = nat (u - 48)"

definition dec :: "jstring \<Rightarrow> nat" where
  "dec ds = foldl (\<lambda>n u. 10 * n + digit_val u) 0 ds"

text \<open>
  \<open>parseFloat\<close> on an unsigned decimal literal without exponent (digits, then optionally a
  point and digits), which is all that \<open>parseMoney\<close> passes to it: the double for the
  exact decimal value; \<open>NaN\<close> when the string does not start with a digit.
\<close>

definition parseFloat :: "builtins \<Rightarrow> jstring \<Rightarrow> jsnum" where
  "parseFloat B s =
     (let ip = takeWhile is_digit s; rest = dropWhile is_digit s
      in if ip = [] then NaN
         else (case rest of
                 c # r \<Rightarrow>
                   if c = of_char (CHR ''.'')
                   then (let fp = takeWhile is_digit r
                         in to_double B (real (dec ip) + real (dec fp) / 10 ^ length fp))
                   else to_double B (real (dec ip))
               | [] \<Rightarrow> to_double B (real (dec ip))))"

text \<open>\<open>parseMoney(maybe)\<close> on a string; \<open>None\<close> is \<open>null\<close>.\<close>

definition parseMoney :: "builtins \<Rightarrow> jstring \<Rightarrow> jsnum option" where
  "parseMoney B maybe =
     (if maybe = [] then None
      else (case regex_exec money_re False maybe of
              None \<Rightarrow> None
            | Some m \<Rightarrow> Some (parseFloat B (filter (\<lambda>c. c \<noteq> of_char (CHR '','')) m))))"

text \<open>
  The fields of a scraped item that the row mapping of \<open>render\<close> reads for its prices;
  \<open>None\<close> is an absent or null field.
\<close>

record raw_item =
  original_formatted :: "jstring option"
  price_text :: "jstring option"
  discounted_formatted :: "jstring option"

text \<open>\<open>a || b\<close> where \<open>a\<close> is a string or absent and \<open>b\<close> a string\<close>

definition str_or :: "jstring option \<Rightarrow> jstring \<Rightarrow> jstring" where
  "str_or a b = (case a of None \<Rightarrow> b | Some s \<Rightarrow> if s = [] then b else s)"

definition row_original :: "raw_item \<Rightarrow> jstring" where
  "row_original it = str_or (original_formatted it) (str_or (price_text it) [])"

definition row_finalRaw :: "raw_item \<Rightarrow> jstring" where
  "row_finalRaw it = str_or (discounted_formatted it) []"

definition originalNum :: "builtins \<Rightarrow> raw_item \<Rightarrow> jsnum option" where
  "originalNum B it = parseMoney B (row_original it)"

definition finalNum :: "builtins \<Rightarrow> raw_item \<Rightarrow> jsnum option" where
  "finalNum B it = parseMoney B (str_or (Some (row_finalRaw it)) (row_original it))"

text \<open>\<open>Number.isFinite(v)\<close> where \<open>v\<close> is a number or \<open>null\<close>: the finite value, if any\<close>

definition finite_opt :: "jsnum option \<Rightarrow> real option" where
  "finite_opt v = (case v of None \<Rightarrow> None | Some n \<Rightarrow> finite_value n)"

text \<open>
  \<open>percentOffActual\<close> of the row: \<open>None\<close> is \<open>null\<close>. The value is
  \<open>+(((originalNum - finalNum) / originalNum) * 100).toFixed(2)\<close> in the arithmetic of
  doubles.
\<close>

definition percentOffActual :: "builtins \<Rightarrow> raw_item \<Rightarrow> jsnum option" where
  "percentOffActual B it =
     (case (finite_opt (originalNum B it), finite_opt (finalNum B it)) of
        (Some orig, Some fin) \<Rightarrow>
          if 0 < orig
          then Some (toFixed2 B
                 (js_mul B (js_div B (js_sub B (Fin orig) (Fin fin)) (Fin orig)) (Fin 100)))
          else None
      | _ \<Rightarrow> None)"

section \<open>Stock status normalisation (main.js)\<close>

text \<open>
  The keys of \<open>STOCK_LABELS\<close>. The lookup \<open>STOCK_LABELS[canonical]\<close> also finds what the
  object inherits; of the inherited names only \<open>constructor\<close> can be a slug.
\<close>

definition STOCK_LABELS :: "jstring list" where
  "STOCK_LABELS =
     map ascii
       [''in_stock'', ''limited'', ''back_order'', ''preorder'', ''pre_order'',
        ''out_of_stock'', ''sold_out'', ''discontinued'', ''unavailable'', ''unknown'']"

definition has_stock_label :: "jstring \<Rightarrow> bool" where
  "has_stock_label canonical =
     (canonical \<in> set STOCK_LABELS \<or> canonical = ascii ''constructor'')"

definition dash_or_space :: regex where
  "dash_or_space = Rep 0 (Some 1) (Cls [OneOf (ascii ''-''), Space])"

definition STOCK_KEYWORDS :: "(regex \<times> jstring) list" where
  "STOCK_KEYWORDS =
     [(alts [Lit (ascii ''not available''), Lit (ascii ''no stock''), Lit (ascii ''sold out''),
             Lit (ascii ''unavailable''), Lit (ascii ''out of stock''),
             Lit (ascii ''out-of-stock''), Lit (ascii ''outofstock'')],
       (ascii ''out_of_stock'')),
      (alts [Seq (Lit (ascii ''back'')) (Seq dash_or_space (Lit (ascii ''order''))),
             Lit (ascii ''awaiting stock''), Lit (ascii ''ships in''),
             Lit (ascii ''special order''), Lit (ascii ''backordered''),
             Lit (ascii ''backorder'')],
       (ascii ''back_order'')),
      (alts [Seq (Lit (ascii ''pre'')) (Seq dash_or_space (Lit (ascii ''order''))),
             Lit (ascii ''coming soon''), Lit (ascii ''preorder'')],
       (ascii ''preorder'')),
      (alts [Lit (ascii ''limited''), Lit (ascii ''low stock''), Lit (ascii ''few left''),
             Lit (ascii ''almost gone''), Seq (Lit (ascii ''only '')) (Rep 1 None digit),
             Lit (ascii ''limitedavailability'')],
       (ascii ''limited'')),
      (alts [Lit (ascii ''discontinued''), Lit (ascii ''no longer available''),
             Lit (ascii ''retired'')],
       (ascii ''discontinued'')),
      (alts [Lit (ascii ''in stock''), Lit (ascii ''available now''),
             Lit (ascii ''ready to ship''), Lit (ascii ''ships today''),
             Lit (ascii ''instock''), Seq (Lit (ascii ''yes'')) Eol,
             Seq (Lit (ascii ''available'')) Eol],
       (ascii ''in_stock''))]"

text \<open>\<open>lowered.replace(/[^a-z]+/g, '_')\<close>: every maximal run of other characters becomes \<open>_\<close>.\<close>

function slugify :: "jstring \<Rightarrow> jstring" where
  "slugify [] = []"
| "slugify (c # cs) =
     (if is_lower c then c # slugify cs
      else of_char (CHR ''_'') # slugify (dropWhile (\<lambda>d. \<not> is_lower d) cs))"
  by pat_completeness auto
termination
  by (relation "measure length") (auto simp: le_imp_less_Suc length_dropWhile_le)

text \<open>The loop over the keywords: the value of the first pattern that matches.\<close>

fun first_keyword :: "(regex \<times> jstring) list \<Rightarrow> jstring \<Rightarrow> jstring option" where
  "first_keyword [] lowered = None"
| "first_keyword ((r, v) # ks) lowered =
     (if regex_test r True lowered then Some v else first_keyword ks lowered)"

text \<open>\<open>normaliseStockValue(raw)\<close>; \<open>None\<close> is a null or undefined \<open>raw\<close>.\<close>

definition normaliseStockValue :: "builtins \<Rightarrow> jstring option \<Rightarrow> jstring" where
  "normaliseStockValue B raw =
     (case raw of
        None \<Rightarrow> ascii ''unknown''
      | Some r \<Rightarrow>
          (let str = trim r in
           if str = [] then ascii ''unknown''
           else (let lowered = toLowerCase B str; canonical = slugify lowered in
                 if has_stock_label canonical then canonical
                 else (case first_keyword STOCK_KEYWORDS lowered of
                         Some v \<Rightarrow> v
                       | None \<Rightarrow> if canonical = [] then ascii ''unknown'' else canonical))))"

section \<open>Category URL canonicalisation (results.js)\<close>



section \<open>Change records and their rendering (results.js)\<close>

text \<open>
  A change record as the API delivers it. \<open>Undefined\<close> is an absent field. \<open>direction\<close>
  stands for a direction the payload might carry: no function below reads it.
\<close>

record change =
  change_type :: jsval
  difference :: jsval
  old_value :: jsval
  new_value :: jsval
  old_value_raw :: jsval
  new_value_raw :: jsval
  is_baseline :: jsval
  title :: jsval
  direction :: jsval

datatype side = Old | New

text \<open>\<open>change[`${side}_value`]\<close> and \<open>change[`${side}_value_raw`]\<close>\<close>

definition side_value :: "change \<Rightarrow> side \<Rightarrow> jsval" where
  "side_value c sd = (case sd of Old \<Rightarrow> old_value c | New \<Rightarrow> new_value c)"

definition side_value_raw :: "change \<Rightarrow> side \<Rightarrow> jsval" where
  "side_value_raw c sd = (case sd of Old \<Rightarrow> old_value_raw c | New \<Rightarrow> new_value_raw c)"

text \<open>\<open>(change.change_type || '').toString().toLowerCase()\<close>\<close>

definition change_type_name :: "builtins \<Rightarrow> change \<Rightarrow> jstring" where
  "change_type_name B c = toLowerCase B (js_string B (js_or (change_type c) (Str [])))"

text \<open>The em dash, U+2014.\<close>

definition em_dash :: jstring where
  "em_dash = [8212]"

definition placeholders :: "jstring list" where
  "placeholders =
     [ascii ''-'', em_dash, ascii ''n/a'', ascii ''na'', ascii ''none'', ascii ''null'',
      ascii ''tbd'', ascii ''pending'']"

text \<open>\<open>hasMeaningfulValueText(value)\<close> on a string\<close>

definition hasMeaningfulValueText :: "builtins \<Rightarrow> jstring \<Rightarrow> bool" where
  "hasMeaningfulValueText B v =
     (let trimmed = trim v in
      if trimmed = [] then False
      else if toLowerCase B trimmed \<in> set placeholders then False
      else True)"

text \<open>
  \<open>formatCurrency(value)\<close> on a number; the formatter is constructed with fixed options
  and its \<open>catch\<close> branch is not modelled.
\<close>

definition formatCurrency :: "builtins \<Rightarrow> jsnum \<Rightarrow> jstring" where
  "formatCurrency B v = (case v of Fin x \<Rightarrow> intl_currency B x | _ \<Rightarrow> em_dash)"

record resolved =
  res_text :: jstring
  isMissing :: bool
  numeric :: "real option"

text \<open>
  The loop of \<open>resolveChangeValue\<close> over the candidate strings: the first one that, reduced
  to the characters \<open>0-9 . -\<close>, is non-empty and converts to a finite number.
\<close>

fun first_sanitized :: "builtins \<Rightarrow> jstring list \<Rightarrow> real option" where
  "first_sanitized B [] = None"
| "first_sanitized B (candidate # rest) =
     (let sanitized = filter (\<lambda>ch. ch \<in> set (ascii ''0123456789.-'')) candidate in
      if sanitized = [] then first_sanitized B rest
      else (case str_to_number B sanitized of
              Fin x \<Rightarrow> Some x
            | _ \<Rightarrow> first_sanitized B rest))"

text \<open>\<open>resolveChangeValue(change, side)\<close>; \<open>None\<close> is a null or undefined \<open>change\<close>.\<close>

definition resolveChangeValue :: "builtins \<Rightarrow> change option \<Rightarrow> side \<Rightarrow> resolved" where
  "resolveChangeValue B ch sd =
     (case ch of
        None \<Rightarrow> \<lparr>res_text = [], isMissing = True, numeric = None\<rparr>
      | Some c \<Rightarrow>
          (let type = change_type_name B c;
               rawField = side_value_raw c sd;
               structuredField = side_value c sd;
               stringCandidates =
                 (if nullish rawField then [] else [rawField]) @
                 (if \<not> nullish structuredField \<and> \<not> strict_eq structuredField rawField
                  then [structuredField] else []);
               normalizedStrings =
                 filter (hasMeaningfulValueText B)
                   (map (\<lambda>v. if nullish v then [] else trim (js_string B v)) stringCandidates);
               numeric0 =
                 (if nullish structuredField then None
                  else if trim (js_string B structuredField) = [] then None
                  else finite_value (ToNumber B structuredField));
               numeric1 =
                 (if numeric0 = None \<and> type = ascii ''price''
                  then first_sanitized B normalizedStrings else numeric0);
               txt =
                 (if type = ascii ''price''
                  then (case numeric1 of
                          Some x \<Rightarrow> formatCurrency B (Fin x)
                        | None \<Rightarrow> (case normalizedStrings of [] \<Rightarrow> [] | s # _ \<Rightarrow> s))
                  else (case normalizedStrings of [] \<Rightarrow> [] | s # _ \<Rightarrow> s))
           in \<lparr>res_text = txt, isMissing = (txt = []), numeric = numeric1\<rparr>))"

record delta_info =
  delta_text :: jstring
  delta_direction :: jstring
  delta_title :: jstring

text \<open>
  \<open>formatDelta(change)\<close>; \<open>None\<close> is \<open>null\<close>. The literal \<open>1e-9\<close> is the double next
  above \<open>10^-9\<close>, and no double lies between the two, so a double is below the one
  exactly when it is below the other.
\<close>

definition formatDelta :: "builtins \<Rightarrow> change option \<Rightarrow> delta_info option" where
  "formatDelta B ch =
     (case ch of
        None \<Rightarrow> None
      | Some c \<Rightarrow>
          if change_type_name B c \<noteq> ascii ''price'' then None
          else (let numeric0 = ToNumber B (difference c);
                    numeric1 =
                      (if isFinite numeric0 then numeric0
                       else (let newResolved = resolveChangeValue B (Some c) New;
                                 oldResolved = resolveChangeValue B (Some c) Old
                             in case (numeric newResolved, numeric oldResolved) of
                                  (Some n, Some oldn) \<Rightarrow> js_sub B (Fin n) (Fin oldn)
                                | _ \<Rightarrow> NaN))
                in case numeric1 of
                     Fin x \<Rightarrow>
                       if \<bar>x\<bar> < 1 / 10 ^ 9 then None
                       else (let amount = formatCurrency B (Fin \<bar>x\<bar>) in
                             Some \<lparr>delta_text = (if 0 < x then ascii ''+'' else ascii ''-'') @ amount,
                                   delta_direction = (if 0 < x then ascii ''up'' else ascii ''down''),
                                   delta_title =
                                     ascii ''Price ''
                                       @ (if 0 < x then ascii ''increased'' else ascii ''decreased'')
                                       @ ascii '' by '' @ amount\<rparr>)
                   | _ \<Rightarrow> None))"

text \<open>\<open>getBaselineLabel(change)\<close> and \<open>getBaselineDescription(change)\<close>\<close>

definition baseline_type :: "builtins \<Rightarrow> change option \<Rightarrow> jstring" where
  "baseline_type B ch =
     (case ch of
        None \<Rightarrow> []
      | Some c \<Rightarrow>
          if truthy (change_type c) then toLowerCase B (js_string B (change_type c)) else [])"

definition getBaselineLabel :: "builtins \<Rightarrow> change option \<Rightarrow> jstring" where
  "getBaselineLabel B ch =
     (let type = baseline_type B ch in
      if type = ascii ''price'' then ascii ''New Price''
      else if type = ascii ''stock'' then ascii ''New Stock''
      else if type = ascii ''description'' then ascii ''New Description''
      else if type = ascii ''new'' then ascii ''New Product''
      else ascii ''New Data'')"

definition getBaselineDescription :: "builtins \<Rightarrow> change option \<Rightarrow> jstring" where
  "getBaselineDescription B ch =
     (let type = baseline_type B ch in
      if type = ascii ''price''
      then ascii ''First price snapshot captured for this product.''
      else if type = ascii ''stock''
      then ascii ''Initial stock status captured for this product.''
      else if type = ascii ''description''
      then ascii ''Initial description captured for this product.''
      else if type = ascii ''new''
      then ascii ''Product discovered during the most recent run.''
      else ascii ''Initial data captured for this product.'')"

text \<open>
  The \<open>span\<close> that \<open>buildDifferenceBadge\<close> creates: its class (unset with \<open>asText\<close>), text,
  title, and the data attributes \<open>baseline\<close> and \<open>direction\<close>.
\<close>

record badge =
  className :: "jstring option"
  textContent :: jstring
  badge_title :: jstring
  dataset_baseline :: "jstring option"
  dataset_direction :: "jstring option"

definition containsAny :: "jstring \<Rightarrow> jstring list \<Rightarrow> bool" where
  "containsAny v tokens = (\<exists>token \<in> set tokens. str_includes v token)"

text \<open>The \<open>price\<close> branch of \<open>buildDifferenceBadge\<close>.\<close>

definition price_badge :: "builtins \<Rightarrow> change \<Rightarrow> bool \<Rightarrow> badge option" where
  "price_badge B c asText =
     (let oldResolved = resolveChangeValue B (Some c) Old;
          newResolved = resolveChangeValue B (Some c) New;
          diff =
            (case ToNumber B (difference c) of
               Fin d \<Rightarrow> Fin d
             | _ \<Rightarrow> (case (numeric newResolved, numeric oldResolved) of
                        (Some n, Some oldn) \<Rightarrow> js_sub B (Fin n) (Fin oldn)
                      | _ \<Rightarrow> NaN))
      in case diff of
           Fin d \<Rightarrow>
             if d = 0 then None
             else (let dir = (if 0 < d then ascii ''up'' else ascii ''down'');
                       absoluteDiff = formatCurrency B (Fin \<bar>d\<bar>)
                   in Some \<lparr>className =
                              (if asText then None
                               else Some (ascii ''change-card__delta change-card__delta--'' @ dir)),
                            textContent = (if 0 < d then ascii ''+'' else ascii ''-'') @ absoluteDiff,
                            badge_title =
                              ascii ''Price ''
                                @ (if 0 < d then ascii ''increased'' else ascii ''decreased'')
                                @ ascii '' by '' @ absoluteDiff,
                            dataset_baseline = None,
                            dataset_direction = Some dir\<rparr>)
         | _ \<Rightarrow> None)"

definition dash_if_empty :: "jstring \<Rightarrow> jstring" where
  "dash_if_empty s = (if s = [] then em_dash else s)"

text \<open>The \<open>stock\<close> branch of \<open>buildDifferenceBadge\<close>.\<close>

definition stock_badge :: "builtins \<Rightarrow> change \<Rightarrow> bool \<Rightarrow> badge option" where
  "stock_badge B c asText =
     (let rawOld = js_string B (js_coalesce (old_value_raw c) (js_coalesce (old_value c) (Str [])));
          rawNew = js_string B (js_coalesce (new_value_raw c) (js_coalesce (new_value c) (Str [])))
      in if rawOld = [] \<and> rawNew = [] then None
         else (let oldLower = toLowerCase B rawOld;
                   newLower = toLowerCase B rawNew;
                   (label, dir) =
                     (if containsAny newLower
                           (map ascii [''in stock'', ''instock'', ''available'', ''ready''])
                      then (ascii ''Restocked'', ascii ''up'')
                      else if containsAny newLower
                                (map ascii [''out of stock'', ''sold out'', ''unavailable'', ''oos''])
                      then (ascii ''Out of Stock'', ascii ''down'')
                      else if containsAny newLower
                                (map ascii [''backorder'', ''pre-order'', ''preorder''])
                      then (ascii ''Backorder'', ascii ''flat'')
                      else if newLower = [] \<and> oldLower \<noteq> []
                      then (ascii ''Stock Removed'', ascii ''down'')
                      else if newLower \<noteq> [] \<and> oldLower = []
                      then (ascii ''Stock Added'', ascii ''up'')
                      else (ascii ''Stock Updated'', ascii ''flat''))
               in Some \<lparr>className =
                          (if asText then None
                           else Some (ascii ''change-card__delta change-card__delta--'' @ dir)),
                        textContent = label,
                        badge_title =
                          ascii ''Stock changed from \"'' @ dash_if_empty rawOld
                            @ ascii ''\" to \"'' @ dash_if_empty rawNew @ ascii ''\"'',
                        dataset_baseline = None,
                        dataset_direction = Some dir\<rparr>))"

text \<open>
  \<open>buildDifferenceBadge(change, options)\<close>; \<open>asText\<close> is \<open>options.asText\<close>, \<open>None\<close> is
  \<open>null\<close>.
\<close>

definition buildDifferenceBadge :: "builtins \<Rightarrow> change option \<Rightarrow> bool \<Rightarrow> badge option" where
  "buildDifferenceBadge B ch asText =
     (case ch of
        None \<Rightarrow> None
      | Some c \<Rightarrow>
          if \<not> truthy (change_type c) then None
          else if truthy (is_baseline c)
          then Some \<lparr>className =
                       (if asText then None
                        else Some (ascii ''change-card__delta change-card__delta--new'')),
                     textContent = getBaselineLabel B (Some c),
                     badge_title = getBaselineDescription B (Some c),
                     dataset_baseline = Some (ascii ''true''),
                     dataset_direction = None\<rparr>
          else (let type = toLowerCase B (js_string B (change_type c)) in
                if type = ascii ''price'' then price_badge B c asText
                else if type = ascii ''stock'' then stock_badge B c asText
                else if type = ascii ''description''
                then Some \<lparr>className =
                             (if asText then None
                              else Some (ascii ''change-card__delta change-card__delta--flat'')),
                           textContent = ascii ''Description Updated'',
                           badge_title = ascii ''Product description content changed'',
                           dataset_baseline = None,
                           dataset_direction = None\<rparr>
                else None))"

text \<open>
  \<open>describeDifference(change)\<close>: the text of the badge, \<open>null\<close> when there is no badge or
  the text is empty.
\<close>

definition describeDifference :: "builtins \<Rightarrow> change option \<Rightarrow> jstring option" where
  "describeDifference B ch =
     (case ch of
        None \<Rightarrow> None
      | Some c \<Rightarrow>
          if truthy (is_baseline c) then Some (ascii ''First snapshot'')
          else (case buildDifferenceBadge B (Some c) True of
                  None \<Rightarrow> None
                | Some b \<Rightarrow> if textContent b = [] then None else Some (textContent b)))"

text \<open>
  The table cell that \<open>buildDeltaCell\<close> creates: its class, text and title. The class
  list starts as \<open>change-table__delta change-table__difference change-values delta-cell\<close>
  and \<open>classList.add\<close> appends to it.
\<close>

record delta_cell =
  cell_className :: jstring
  cell_textContent :: jstring
  cell_title :: "jstring option"

definition buildDeltaCell :: "builtins \<Rightarrow> change option \<Rightarrow> delta_cell" where
  "buildDeltaCell B ch =
     (let base = ascii ''change-table__delta change-table__difference change-values delta-cell''
      in case formatDelta B ch of
           Some deltaInfo \<Rightarrow>
             \<lparr>cell_className =
                (if delta_direction deltaInfo \<noteq> []
                 then base @ ascii '' change-table__difference--'' @ delta_direction deltaInfo
                 else base),
              cell_textContent = delta_text deltaInfo,
              cell_title =
                (if delta_title deltaInfo \<noteq> [] then Some (delta_title deltaInfo) else None)\<rparr>
         | None \<Rightarrow>
             \<lparr>cell_className = base, cell_textContent = em_dash, cell_title = None\<rparr>)"

text \<open>
  What \<open>formatDelta\<close> returns for a number \<open>x\<close> that it has found to be finite: nothing
  below the tolerance, otherwise the signed amount, the direction and the title.
\<close>

abbreviation shown_delta :: "builtins \<Rightarrow> real \<Rightarrow> delta_info option" where
  "shown_delta B x \<equiv>
     (if \<bar>x\<bar> < 1 / 10 ^ 9 then None
      else Some \<lparr>delta_text = (if 0 < x then ascii ''+'' else ascii ''-'') @ formatCurrency B (Fin \<bar>x\<bar>),
                delta_direction = (if 0 < x then ascii ''up'' else ascii ''down''),
                delta_title =
                  ascii ''Price '' @ (if 0 < x then ascii ''increased'' else ascii ''decreased'')
                    @ ascii '' by '' @ formatCurrency B (Fin \<bar>x\<bar>)\<rparr>)"

section \<open>Sorting the change list (results.js)\<close>

text \<open>\<open>(a.title || '').toString().toLowerCase()\<close>\<close>

definition sort_title :: "builtins \<Rightarrow> change \<Rightarrow> jstring" where
  "sort_title B a = toLowerCase B (js_string B (js_or (title a) (Str [])))"

text \<open>The comparator that \<open>sortChanges\<close> passes to \<open>sort\<close>.\<close>

definition title_compare :: "builtins \<Rightarrow> change \<Rightarrow> change \<Rightarrow> int" where
  "title_compare B a b =
     (let titleA = sort_title B a; titleB = sort_title B b in
      if titleA \<noteq> [] \<and> titleB \<noteq> [] then locale_compare B titleA titleB
      else if titleA \<noteq> [] then - 1
      else if titleB \<noteq> [] then 1
      else 0)"

text \<open>
  \<open>Array.prototype.sort(cmp)\<close> is stable and, for a consistent comparator, sorts; it is
  modelled as the stable insertion sort.
\<close>

fun js_insert :: "('a \<Rightarrow> 'a \<Rightarrow> int) \<Rightarrow> 'a \<Rightarrow> 'a list \<Rightarrow> 'a list" where
  "js_insert cmp x [] = [x]"
| "js_insert cmp x (y # ys) = (if cmp x y \<le> 0 then x # y # ys else y # js_insert cmp x ys)"

definition js_sort :: "('a \<Rightarrow> 'a \<Rightarrow> int) \<Rightarrow> 'a list \<Rightarrow> 'a list" where
  "js_sort cmp xs = foldr (js_insert cmp) xs []"

text \<open>\<open>sortChanges(items)\<close> on an array, with \<open>this.filters.sortMode\<close> as a parameter.\<close>

definition sortChanges :: "builtins \<Rightarrow> jstring \<Rightarrow> change list \<Rightarrow> change list" where
  "sortChanges B sortMode items =
     (if items = [] then []
      else if sortMode = ascii ''title'' then js_sort (title_compare B) items
      else items)"

section \<open>History sessions and their filters (history page script)\<close>

text \<open>An element of \<open>entry.items\<close>: an object with a title and a site, or anything else.\<close>

datatype history_item = NotAnObject | Item (item_title: jsval) (item_site: jsval)

text \<open>
  A history entry as the API delivers it; \<open>None\<close> for \<open>urls\<close> or \<open>items\<close> is a value that
  is not an array, \<open>rule_percent_off\<close> and \<open>rule_absolute_off\<close> are the fields of
  \<open>entry.rules\<close>. An entry that is not an object has every field absent.
\<close>

record raw_entry =
  entry_id :: jsval
  timestamp :: jsval
  urls :: "jstring list option"
  items :: "history_item list option"
  raw_items_count :: jsval
  rule_percent_off :: jsval
  rule_absolute_off :: jsval

text \<open>The fields that \<open>normalizeHistoryEntry\<close> computes.\<close>

record history_entry =
  norm_urls :: "jstring list"
  norm_items :: "history_item list"
  items_count :: real
  percent_off :: jsnum
  absolute_off :: jsnum
  host_list :: "jstring list"
  timestamp_obj :: "int option"
  timestamp_ms :: int
  search_index :: jstring

text \<open>\<open>host.replace(/^www\./, '')\<close>\<close>

definition strip_www :: "jstring \<Rightarrow> jstring" where
  "strip_www h = (if starts_with h (ascii ''www.'') then drop 4 h else h)"

text \<open>
  One step of the loop that fills \<open>hostSet\<close>: the host of the URL, or the URL itself when
  it does not parse; a set keeps the first occurrence of each element.
\<close>

definition add_host :: "builtins \<Rightarrow> jstring list \<Rightarrow> jstring \<Rightarrow> jstring list" where
  "add_host B hosts url =
     (let found =
            (case url_hostname B url of
               Some h \<Rightarrow> (let host = strip_www h in if host \<noteq> [] then Some host else None)
             | None \<Rightarrow> if url \<noteq> [] then Some url else None)
      in case found of
           None \<Rightarrow> hosts
         | Some host \<Rightarrow> if host \<in> set hosts then hosts else hosts @ [host])"

text \<open>\<open>Number(v) || 0\<close>\<close>

definition number_or_zero :: "builtins \<Rightarrow> jsval \<Rightarrow> jsnum" where
  "number_or_zero B v = (let n = ToNumber B v in if truthy (Num n) then n else Fin 0)"

text \<open>What one of the first 25 items contributes to the search parts.\<close>

fun item_parts :: "history_item \<Rightarrow> jsval list" where
  "item_parts NotAnObject = []"
| "item_parts (Item t s) = (if truthy t then [t] else []) @ (if truthy s then [s] else [])"

text \<open>The time stamp: a string without \<open>+\<close> and \<open>Z\<close> is read as Pakistan time.\<close>

definition parse_timestamp :: "builtins \<Rightarrow> jsval \<Rightarrow> int option" where
  "parse_timestamp B ts =
     (if \<not> truthy ts then None
      else (case ts of
              Str s \<Rightarrow>
                if of_char (CHR ''+'') \<notin> set s \<and> of_char (CHR ''Z'') \<notin> set s
                then date_parse B (Str (s @ ascii ''+05:00''))
                else date_parse B (Str s)
            | other \<Rightarrow> date_parse B other))"

definition normalizeHistoryEntry :: "builtins \<Rightarrow> raw_entry \<Rightarrow> history_entry" where
  "normalizeHistoryEntry B safeEntry =
     (let urls1 = (case urls safeEntry of Some us \<Rightarrow> filter (\<lambda>u. u \<noteq> []) us | None \<Rightarrow> []);
          items1 = (case items safeEntry of Some its \<Rightarrow> its | None \<Rightarrow> []);
          timestampObj = parse_timestamp B (timestamp safeEntry);
          hostList = foldl (add_host B) [] urls1;
          p_off = number_or_zero B (rule_percent_off safeEntry);
          a_off = number_or_zero B (rule_absolute_off safeEntry);
          itemsCount =
            (case ToNumber B (raw_items_count safeEntry) of
               Fin x \<Rightarrow> x
             | _ \<Rightarrow> real (length items1));
          searchParts =
            [js_or (entry_id safeEntry) (Str []), Num (Fin itemsCount), Str (join (ascii '' '') urls1),
             Str (join (ascii '' '') hostList), Num p_off, Num a_off]
            @ concat (map item_parts (take 25 items1));
          searchIndex = join (ascii '' | '') (map (\<lambda>part. toLowerCase B (js_string B part)) searchParts)
      in \<lparr>norm_urls = urls1, norm_items = items1, items_count = itemsCount,
          percent_off = p_off, absolute_off = a_off, host_list = hostList,
          timestamp_obj = timestampObj,
          timestamp_ms = (case timestampObj of Some t \<Rightarrow> t | None \<Rightarrow> 0),
          search_index = searchIndex\<rparr>)"

text \<open>
  \<open>filterState\<close>: the search text, the two dates as time values (\<open>None\<close> is \<open>null\<close>), the
  minimum item count and the site.
\<close>

record filter_state =
  search :: jstring
  startDate :: "int option"
  endDate :: "int option"
  minItems :: real
  site :: jstring

definition defaultFilterState :: filter_state where
  "defaultFilterState =
     \<lparr>search = [], startDate = None, endDate = None, minItems = 0, site = []\<rparr>"

text \<open>The callback of \<open>historyData.filter\<close> in \<open>applyFilters\<close>, with its early returns.\<close>

definition keeps_entry :: "filter_state \<Rightarrow> history_entry \<Rightarrow> bool" where
  "keeps_entry fs entry =
     (let effectiveSearch = trim (search fs) in
      if effectiveSearch \<noteq> [] \<and> \<not> str_includes (search_index entry) effectiveSearch
      then False
      else if (case startDate fs of
                 None \<Rightarrow> False
               | Some startTime \<Rightarrow>
                   (case timestamp_obj entry of
                      None \<Rightarrow> True
                    | Some entryTime \<Rightarrow> entryTime < startTime))
      then False
      else if (case endDate fs of
                 None \<Rightarrow> False
               | Some endTime \<Rightarrow>
                   (case timestamp_obj entry of
                      None \<Rightarrow> True
                    | Some entryTime \<Rightarrow> endTime < entryTime))
      then False
      else if minItems fs \<noteq> 0 \<and> items_count entry < minItems fs then False
      else if site fs \<noteq> [] \<and> site fs \<notin> set (host_list entry) then False
      else True)"

text \<open>\<open>applyFilters()\<close>: the new value of \<open>filteredHistory\<close>.\<close>

definition applyFilters :: "filter_state \<Rightarrow> history_entry list \<Rightarrow> history_entry list" where
  "applyFilters fs historyData = filter (keeps_entry fs) historyData"

section \<open>Sample data\<close>

text \<open>
  An instance of the built-ins for evaluating the functions on examples: \<open>Number\<close> reads
  unsigned decimal literals and gives \<open>NaN\<close> on any other string, every number prints as
  \<open>n\<close>, every amount formats as \<open>$\<close>, strings compare in the lexicographic order of
  their code units, no URL and no date parses, lower-casing changes the ASCII letters only,
  and every real number is taken to be a double.
\<close>

definition sample_number :: "jstring \<Rightarrow> jsnum" where
  "sample_number s =
     (let ip = takeWhile is_digit s; rest = dropWhile is_digit s
      in if ip = [] then NaN
         else if rest = [] then Fin (real (dec ip))
         else if hd rest = of_char (CHR ''.'') \<and> list_all is_digit (tl rest)
         then Fin (real (dec ip) + real (dec (tl rest)) / 10 ^ length (tl rest))
         else NaN)"

definition sample_builtins :: builtins where
  "sample_builtins =
     \<lparr>str_to_number = sample_number, number_to_str = (\<lambda>n. ascii ''n''),
      intl_currency = (\<lambda>x. ascii ''$''),
      locale_compare = (\<lambda>a b. if a < b then - 1 else if a = b then 0 else 1),
      url_hostname = (\<lambda>u. None), date_parse = (\<lambda>s. None),
      lower_unicode = map ascii_lower, nearest_double = Fin\<rparr>"

text \<open>A price change from 100 to 85.5 whose payload also carries a direction.\<close>

definition price_drop :: change where
  "price_drop =
     \<lparr>change_type = Str (ascii ''price''), difference = Num (Fin (- 14.5)),
      old_value = Num (Fin 100), new_value = Num (Fin 85.5),
      old_value_raw = Str (ascii ''$100.00''), new_value_raw = Str (ascii ''$85.50''),
      is_baseline = Bool False, title = Str (ascii ''Widget''), direction = Str (ascii ''up'')\<rparr>"



text \<open>A price change whose stored difference is half of the tolerance 1e-9.\<close>

definition tiny_delta :: change where
  "tiny_delta =
     \<lparr>change_type = Str (ascii ''price''), difference = Num (Fin (1 / (2 * 10 ^ 9))),
      old_value = Num (Fin 10), new_value = Num (Fin (10 + 1 / (2 * 10 ^ 9))),
      old_value_raw = Undefined, new_value_raw = Undefined,
      is_baseline = Bool False, title = Str (ascii ''Widget''), direction = Undefined\<rparr>"

text \<open>The first observation of a price: a baseline record.\<close>

definition first_price :: change where
  "first_price =
     \<lparr>change_type = Str (ascii ''price''), difference = Num (Fin 19.99),
      old_value = Null, new_value = Num (Fin 19.99),
      old_value_raw = Null, new_value_raw = Str (ascii ''$19.99''),
      is_baseline = Bool True, title = Str (ascii ''Widget''), direction = Undefined\<rparr>"

text \<open>Three changes that differ in their titles only.\<close>

definition untitled_change :: change where
  "untitled_change = price_drop\<lparr>title := Null\<rparr>"

definition bolt_change :: change where
  "bolt_change = price_drop\<lparr>title := Str (ascii ''Bolt'')\<rparr>"

definition anchor_change :: change where
  "anchor_change = price_drop\<lparr>title := Str (ascii ''anchor'')\<rparr>"

text \<open>Two normalised history sessions and a state of the filters.\<close>

definition session_a :: history_entry where
  "session_a =
     \<lparr>norm_urls = [ascii ''https://shop.example.com/parts''], norm_items = [], items_count = 12,
      percent_off = Fin 10, absolute_off = Fin 0, host_list = [ascii ''shop.example.com''],
      timestamp_obj = Some 1700000000000, timestamp_ms = 1700000000000,
      search_index =
        ascii ''run-1 | 12 | https://shop.example.com/parts | shop.example.com | 10 | 0''\<rparr>"

definition session_b :: history_entry where
  "session_b =
     \<lparr>norm_urls = [ascii ''https://other.example.org/''], norm_items = [], items_count = 3,
      percent_off = Fin 0, absolute_off = Fin 0, host_list = [ascii ''other.example.org''],
      timestamp_obj = None, timestamp_ms = 0,
      search_index =
        ascii ''run-2 | 3 | https://other.example.org/ | other.example.org | 0 | 0''\<rparr>"

definition sample_filter :: filter_state where
  "sample_filter =
     \<lparr>search = ascii ''shop'', startDate = Some 1690000000000, endDate = None, minItems = 10,
      site = ascii ''shop.example.com''\<rparr>"

text \<open>A session of 26 items; only the last one is a zebra gasket.\<close>

definition widget_item :: history_item where
  "widget_item = Item (Str (ascii ''Widget'')) (Str (ascii ''shop.example.com''))"

definition zebra_item :: history_item where
  "zebra_item = Item (Str (ascii ''Zebra Gasket'')) (Str (ascii ''zebra.example.org''))"

definition long_session :: raw_entry where
  "long_session =
     \<lparr>entry_id = Str (ascii ''run-7''), timestamp = Undefined,
      urls = Some [ascii ''https://shop.example.com/parts''],
      items = Some (replicate 25 widget_item @ [zebra_item]),
      raw_items_count = Num (Fin 26), rule_percent_off = Num (Fin 10),
      rule_absolute_off = Undefined\<rparr>"
section \<open>Evaluating literals and rounding\<close>

lemma ascii_Nil [simp]: "ascii [] = []"
  by (simp add: ascii_def)

lemma ascii_eq_Nil [simp]: "ascii cs = [] \<longleftrightarrow> cs = []"
  by (simp add: ascii_def)

lemma to_double_integer:
  "\<lfloor>x\<rfloor> = \<lceil>x\<rceil> \<Longrightarrow> \<bar>x\<bar> \<le> 2 ^ 53 \<Longrightarrow> to_double B x = Fin x"
  by (simp add: to_double_def)

lemma sample_to_double: "to_double sample_builtins x = Fin x"
  by (simp add: to_double_def sample_builtins_def)

section \<open>Price parsing: results\<close>

lemma rep_match_no_first:
  "f s = [] \<Longrightarrow> 0 < lo \<Longrightarrow> rep_match f lo hi s = []"
  by (cases hi) simp_all

lemma rmatch_digit_none:
  "s = [] \<or> \<not> is_digit (hd s) \<Longrightarrow> rmatch digit False s = []"
  by (cases s) (auto simp: digit_def)

lemma rmatch_money_none:
  assumes "s = [] \<or> \<not> is_digit (hd s)"
  shows "rmatch money_re False s = []"
proof -
  have d: "rmatch digit False s = []"
    using assms by (rule rmatch_digit_none)
  have "rmatch (Rep 1 (Some 3) digit) False s = []"
    using d by (simp add: rep_match_no_first)
  moreover have "rmatch (Rep 1 None digit) False s = []"
    using d by (simp add: rep_match_no_first)
  ultimately show ?thesis
    by (simp add: money_re_def)
qed

lemma regex_exec_money_no_digit:
  "\<forall>c \<in> set s. \<not> is_digit c \<Longrightarrow> regex_exec money_re False s = None"
proof (induction s)
  case Nil
  then show ?case by (simp add: rmatch_money_none)
next
  case (Cons c cs)
  have "rmatch money_re False (c # cs) = []"
    using Cons.prems by (intro rmatch_money_none) simp
  then show ?case using Cons by simp
qed

lemma parseMoney_no_digit:
  "\<forall>c \<in> set s. \<not> is_digit c \<Longrightarrow> parseMoney B s = None"
  by (simp add: parseMoney_def regex_exec_money_no_digit del: regex_exec.simps)

lemma money_match_two_decimals:
  "regex_exec money_re False (ascii ''$1,234.56'') = Some (ascii ''1,234.56'')"
  by code_simp

lemma parseMoney_two_decimals:
  "parseMoney B (ascii ''$1,234.56'') = Some (nearest_double B 1234.56)"
  unfolding parseMoney_def money_match_two_decimals
  by (simp add: parseFloat_def is_digit_def ascii_def to_double_def dec_def digit_val_def)

lemma money_match_no_decimals:
  "regex_exec money_re False (ascii ''$1,234'') = Some (ascii ''1'')"
  by code_simp

text \<open>
  C4. A currency string with thousands separators and two decimals parses to the double for
  its full value (\<open>parseMoney_two_decimals\<close>) and a string without a digit parses to
  \<open>null\<close> (\<open>parseMoney_no_digit\<close>), but the first alternative of the pattern needs the two
  decimals and the second one knows no separator: on \<open>$1,234\<close> the match is \<open>1\<close> and the
  price returned is 1, not 1234.
\<close>

theorem parseMoney_thousands_without_decimals:
  "parseMoney B (ascii ''$1,234'') = Some (Fin 1)"
  unfolding parseMoney_def money_match_no_decimals
  by (simp add: parseFloat_def is_digit_def ascii_def to_double_def dec_def digit_val_def)

section \<open>The percent-off column: results\<close>

lemma finite_opt_Some:
  "finite_opt v = Some x \<longleftrightarrow> v = Some (Fin x)"
  by (cases v; cases "the v") (auto simp: finite_opt_def)

lemma finite_opt_None:
  "finite_opt v = None \<longleftrightarrow> (\<forall>x. v \<noteq> Some (Fin x))"
  by (cases v; cases "the v") (auto simp: finite_opt_def)

text \<open>
  C10. The percent-off value of a row is \<open>+(((original - final) / original) * 100).toFixed(2)\<close>,
  in the arithmetic of doubles, exactly when both prices parse to finite numbers and the
  original price is strictly positive; in every other case it is \<open>null\<close>. So whenever the
  division is performed its denominator is a finite number above zero.
\<close>

theorem percentOffActual_guarded:
  "(\<forall>orig fin. originalNum B it = Some (Fin orig) \<and> finalNum B it = Some (Fin fin) \<and> 0 < orig
      \<longrightarrow> percentOffActual B it =
            Some (toFixed2 B
              (js_mul B (js_div B (js_sub B (Fin orig) (Fin fin)) (Fin orig)) (Fin 100))))
   \<and> ((\<nexists>orig fin. originalNum B it = Some (Fin orig) \<and> finalNum B it = Some (Fin fin) \<and> 0 < orig)
      \<longrightarrow> percentOffActual B it = None)
   \<and> (percentOffActual B it \<noteq> None
      \<longrightarrow> (\<exists>orig. originalNum B it = Some (Fin orig) \<and> 0 < orig))"
proof (intro conjI allI impI)
  fix orig fin
  assume "originalNum B it = Some (Fin orig) \<and> finalNum B it = Some (Fin fin) \<and> 0 < orig"
  then show "percentOffActual B it =
            Some (toFixed2 B
              (js_mul B (js_div B (js_sub B (Fin orig) (Fin fin)) (Fin orig)) (Fin 100)))"
    by (simp add: percentOffActual_def finite_opt_def)
next
  assume "\<nexists>orig fin. originalNum B it = Some (Fin orig) \<and> finalNum B it = Some (Fin fin) \<and> 0 < orig"
  then show "percentOffActual B it = None"
    by (auto simp: percentOffActual_def finite_opt_Some split: option.splits)
next
  assume "percentOffActual B it \<noteq> None"
  then show "\<exists>orig. originalNum B it = Some (Fin orig) \<and> 0 < orig"
    by (auto simp: percentOffActual_def finite_opt_Some split: option.splits if_splits)
qed

lemma money_match_100:
  "regex_exec money_re False (ascii ''$100.00'') = Some (ascii ''100.00'')"
  by code_simp

lemma money_match_85:
  "regex_exec money_re False (ascii ''$85.50'') = Some (ascii ''85.50'')"
  by code_simp

lemma money_match_zero:
  "regex_exec money_re False (ascii ''$0.00'') = Some (ascii ''0.00'')"
  by code_simp

lemma money_match_8:
  "regex_exec money_re False (ascii ''$8.00'') = Some (ascii ''8.00'')"
  by code_simp

lemma money_match_825:
  "regex_exec money_re False (ascii ''$8.25'') = Some (ascii ''8.25'')"
  by code_simp

lemma parseMoney_100: "parseMoney B (ascii ''$100.00'') = Some (Fin 100)"
  unfolding parseMoney_def money_match_100
  by (simp add: parseFloat_def is_digit_def ascii_def to_double_def dec_def digit_val_def)

lemma parseMoney_85: "parseMoney sample_builtins (ascii ''$85.50'') = Some (Fin 85.5)"
  unfolding parseMoney_def money_match_85
  by (simp add: parseFloat_def is_digit_def ascii_def sample_to_double dec_def digit_val_def)

lemma parseMoney_zero: "parseMoney B (ascii ''$0.00'') = Some (Fin 0)"
  unfolding parseMoney_def money_match_zero
  by (simp add: parseFloat_def is_digit_def ascii_def to_double_def dec_def digit_val_def)

lemma parseMoney_8: "parseMoney B (ascii ''$8.00'') = Some (Fin 8)"
  unfolding parseMoney_def money_match_8
  by (simp add: parseFloat_def is_digit_def ascii_def to_double_def dec_def digit_val_def)

lemma parseMoney_825: "parseMoney sample_builtins (ascii ''$8.25'') = Some (Fin 8.25)"
  unfolding parseMoney_def money_match_825
  by (simp add: parseFloat_def is_digit_def ascii_def sample_to_double dec_def digit_val_def)

theorem percentOffActual_guarded_witness:
  "percentOffActual sample_builtins \<lparr>original_formatted = Some (ascii ''$100.00''),
       price_text = None, discounted_formatted = Some (ascii ''$85.50'')\<rparr> = Some (Fin 14.5)
   \<and> percentOffActual sample_builtins \<lparr>original_formatted = Some (ascii ''$8.00''),
       price_text = None, discounted_formatted = Some (ascii ''$8.25'')\<rparr> = Some (Fin (- 3.13))
   \<and> percentOffActual sample_builtins \<lparr>original_formatted = Some (ascii ''$0.00''),
       price_text = None, discounted_formatted = Some (ascii ''$85.50'')\<rparr> = None
   \<and> percentOffActual sample_builtins \<lparr>original_formatted = None,
       price_text = Some (ascii ''call us''), discounted_formatted = None\<rparr> = None"
proof -
  let ?a = "\<lparr>original_formatted = Some (ascii ''$100.00''), price_text = None,
       discounted_formatted = Some (ascii ''$85.50'')\<rparr>"
  let ?d = "\<lparr>original_formatted = Some (ascii ''$8.00''), price_text = None,
       discounted_formatted = Some (ascii ''$8.25'')\<rparr>"
  let ?b = "\<lparr>original_formatted = Some (ascii ''$0.00''), price_text = None,
       discounted_formatted = Some (ascii ''$85.50'')\<rparr>"
  let ?c = "\<lparr>original_formatted = None, price_text = Some (ascii ''call us''),
       discounted_formatted = None\<rparr>"
  have oa: "originalNum sample_builtins ?a = Some (Fin 100)"
    and fa: "finalNum sample_builtins ?a = Some (Fin 85.5)"
    by (simp_all add: originalNum_def finalNum_def row_original_def row_finalRaw_def
        str_or_def parseMoney_100 parseMoney_85)
  have od: "originalNum sample_builtins ?d = Some (Fin 8)"
    and fd: "finalNum sample_builtins ?d = Some (Fin 8.25)"
    by (simp_all add: originalNum_def finalNum_def row_original_def row_finalRaw_def
        str_or_def parseMoney_8 parseMoney_825)
  have ob: "originalNum sample_builtins ?b = Some (Fin 0)"
    by (simp add: originalNum_def row_original_def str_or_def parseMoney_zero)
  have oc: "originalNum sample_builtins ?c = None"
    by (simp add: originalNum_def row_original_def str_or_def parseMoney_no_digit
        is_digit_def ascii_def)
  have ra: "toFixed2 sample_builtins (js_mul sample_builtins
        (js_div sample_builtins (js_sub sample_builtins (Fin 100) (Fin 85.5)) (Fin 100))
        (Fin 100)) = Fin 14.5"
    by (simp add: toFixed2_def sample_to_double)
  have rd: "toFixed2 sample_builtins (js_mul sample_builtins
        (js_div sample_builtins (js_sub sample_builtins (Fin 8) (Fin 8.25)) (Fin 8))
        (Fin 100)) = Fin (- 3.13)"
    by (simp add: toFixed2_def sample_to_double)
  have "percentOffActual sample_builtins ?a = Some (Fin 14.5)"
    using percentOffActual_guarded [of sample_builtins ?a, THEN conjunct1, rule_format,
        of 100 "85.5"] oa fa ra
    by simp
  moreover have "percentOffActual sample_builtins ?d = Some (Fin (- 3.13))"
    using percentOffActual_guarded [of sample_builtins ?d, THEN conjunct1, rule_format,
        of 8 "8.25"] od fd rd
    by simp
  moreover have "percentOffActual sample_builtins ?b = None"
    using percentOffActual_guarded [of sample_builtins ?b] ob by simp
  moreover have "percentOffActual sample_builtins ?c = None"
    using percentOffActual_guarded [of sample_builtins ?c] oc by simp
  ultimately show ?thesis by simp
qed

section \<open>Stock status normalisation: results\<close>

lemma slugify_nonempty: "s \<noteq> [] \<Longrightarrow> slugify s \<noteq> []"
  by (cases s) auto

lemma first_keyword_find:
  "first_keyword ks s = map_option snd (find (\<lambda>k. regex_test (fst k) True s) ks)"
  by (induction ks s rule: first_keyword.induct) auto

lemma first_keyword_index:
  assumes "i < length ks" "regex_test (fst (ks ! i)) True s"
    and "\<forall>j<i. \<not> regex_test (fst (ks ! j)) True s"
  shows "first_keyword ks s = Some (snd (ks ! i))"
proof -
  have "find (\<lambda>k. regex_test (fst k) True s) ks = Some (ks ! i)"
    using assms by (auto simp: find_Some_iff)
  then show ?thesis by (simp add: first_keyword_find)
qed

lemma first_keyword_none:
  assumes "\<forall>i<length ks. \<not> regex_test (fst (ks ! i)) True s"
  shows "first_keyword ks s = None"
proof -
  have "find (\<lambda>k. regex_test (fst k) True s) ks = None"
    using assms by (auto simp: find_None_iff in_set_conv_nth)
  then show ?thesis by (simp add: first_keyword_find)
qed

lemma unknown_is_label: "has_stock_label (ascii ''unknown'')"
  by (simp add: has_stock_label_def STOCK_LABELS_def)

lemma toLowerCase_ascii_nonempty:
  "list_all (\<lambda>u. 0 \<le> u \<and> u < 128) s \<Longrightarrow> s \<noteq> [] \<Longrightarrow> toLowerCase B s \<noteq> []"
  by (simp add: toLowerCase_def)

text \<open>
  C3 (as amended). Null input and input that is blank after trimming (the trimming strips
  every white space character of the language, U+00A0 among them) give \<open>unknown\<close>. For any
  other text: when the slug of the lower-cased text is itself a stock label it is returned
  without consulting the keywords; otherwise the value of the first keyword pattern that
  matches, in the order out_of_stock, back_order, preorder, limited, discontinued,
  in_stock, is returned; and when no pattern matches the slug is returned, which is neither
  empty nor \<open>unknown\<close> as long as the lower-cased text is not empty (as it is for ASCII
  text).
\<close>

theorem normaliseStockValue_labels_then_keywords:
  "normaliseStockValue B None = ascii ''unknown''
   \<and> (trim r = [] \<longrightarrow> normaliseStockValue B (Some r) = ascii ''unknown'')
   \<and> (trim r \<noteq> [] \<longrightarrow>
        (let lowered = toLowerCase B (trim r); canonical = slugify lowered in
         (list_all (\<lambda>u. 0 \<le> u \<and> u < 128) (trim r) \<longrightarrow> lowered \<noteq> [])
         \<and> (lowered \<noteq> [] \<longrightarrow> canonical \<noteq> [])
         \<and> (has_stock_label canonical \<longrightarrow> normaliseStockValue B (Some r) = canonical)
         \<and> (\<not> has_stock_label canonical \<longrightarrow>
              (\<forall>i<length STOCK_KEYWORDS.
                  regex_test (fst (STOCK_KEYWORDS ! i)) True lowered
                  \<and> (\<forall>j<i. \<not> regex_test (fst (STOCK_KEYWORDS ! j)) True lowered)
                  \<longrightarrow> normaliseStockValue B (Some r) = snd (STOCK_KEYWORDS ! i))
              \<and> ((\<forall>i<length STOCK_KEYWORDS.
                     \<not> regex_test (fst (STOCK_KEYWORDS ! i)) True lowered)
                  \<longrightarrow> normaliseStockValue B (Some r) =
                        (if canonical = [] then ascii ''unknown'' else canonical)
                      \<and> (lowered \<noteq> [] \<longrightarrow>
                            normaliseStockValue B (Some r) = canonical
                            \<and> normaliseStockValue B (Some r) \<noteq> ascii ''unknown'')))))
   \<and> map snd STOCK_KEYWORDS =
       map ascii [''out_of_stock'', ''back_order'', ''preorder'', ''limited'',
                  ''discontinued'', ''in_stock'']"
proof -
  have A: "normaliseStockValue B None = ascii ''unknown''"
    by (simp add: normaliseStockValue_def)
  have B: "normaliseStockValue B (Some r) = ascii ''unknown''" if "trim r = []"
    using that by (simp add: normaliseStockValue_def)
  have C: "map snd STOCK_KEYWORDS =
       map ascii [''out_of_stock'', ''back_order'', ''preorder'', ''limited'',
                  ''discontinued'', ''in_stock'']"
    by (simp add: STOCK_KEYWORDS_def)
  have D: "let lowered = toLowerCase B (trim r); canonical = slugify lowered in
         (list_all (\<lambda>u. 0 \<le> u \<and> u < 128) (trim r) \<longrightarrow> lowered \<noteq> [])
         \<and> (lowered \<noteq> [] \<longrightarrow> canonical \<noteq> [])
         \<and> (has_stock_label canonical \<longrightarrow> normaliseStockValue B (Some r) = canonical)
         \<and> (\<not> has_stock_label canonical \<longrightarrow>
              (\<forall>i<length STOCK_KEYWORDS.
                  regex_test (fst (STOCK_KEYWORDS ! i)) True lowered
                  \<and> (\<forall>j<i. \<not> regex_test (fst (STOCK_KEYWORDS ! j)) True lowered)
                  \<longrightarrow> normaliseStockValue B (Some r) = snd (STOCK_KEYWORDS ! i))
              \<and> ((\<forall>i<length STOCK_KEYWORDS.
                     \<not> regex_test (fst (STOCK_KEYWORDS ! i)) True lowered)
                  \<longrightarrow> normaliseStockValue B (Some r) =
                        (if canonical = [] then ascii ''unknown'' else canonical)
                      \<and> (lowered \<noteq> [] \<longrightarrow>
                            normaliseStockValue B (Some r) = canonical
                            \<and> normaliseStockValue B (Some r) \<noteq> ascii ''unknown'')))"
    if ne: "trim r \<noteq> []"
  proof -
    define lowered where "lowered = toLowerCase B (trim r)"
    define canonical where "canonical = slugify lowered"
    have a: "list_all (\<lambda>u. 0 \<le> u \<and> u < 128) (trim r) \<longrightarrow> lowered \<noteq> []"
      using ne by (simp add: lowered_def toLowerCase_ascii_nonempty)
    have c: "lowered \<noteq> [] \<longrightarrow> canonical \<noteq> []"
      by (simp add: canonical_def slugify_nonempty)
    have n: "normaliseStockValue B (Some r) =
        (if has_stock_label canonical then canonical
         else (case first_keyword STOCK_KEYWORDS lowered of
                 Some v \<Rightarrow> v
               | None \<Rightarrow> if canonical = [] then ascii ''unknown'' else canonical))"
      using ne by (simp add: normaliseStockValue_def Let_def canonical_def lowered_def
          split: option.splits)
    have l: "has_stock_label canonical \<longrightarrow> normaliseStockValue B (Some r) = canonical"
      using n by simp
    have k: "normaliseStockValue B (Some r) = snd (STOCK_KEYWORDS ! i)"
      if "\<not> has_stock_label canonical" "i < length STOCK_KEYWORDS"
        "regex_test (fst (STOCK_KEYWORDS ! i)) True lowered"
        "\<forall>j<i. \<not> regex_test (fst (STOCK_KEYWORDS ! j)) True lowered" for i
      using that n by (simp add: first_keyword_index)
    have f: "normaliseStockValue B (Some r) =
               (if canonical = [] then ascii ''unknown'' else canonical)"
      if "\<not> has_stock_label canonical"
        "\<forall>i<length STOCK_KEYWORDS. \<not> regex_test (fst (STOCK_KEYWORDS ! i)) True lowered"
      using that n by (simp add: first_keyword_none)
    have g: "normaliseStockValue B (Some r) = canonical
             \<and> normaliseStockValue B (Some r) \<noteq> ascii ''unknown''"
      if "\<not> has_stock_label canonical"
        "\<forall>i<length STOCK_KEYWORDS. \<not> regex_test (fst (STOCK_KEYWORDS ! i)) True lowered"
        "lowered \<noteq> []"
      using that f c unknown_is_label by auto
    show ?thesis
      unfolding Let_def lowered_def [symmetric] canonical_def [symmetric]
      using a c l k f g by blast
  qed
  show ?thesis
    using A B C D by blast
qed

theorem normaliseStockValue_labels_then_keywords_witness:
  "trim (ascii ''Ships in 5 days'') \<noteq> []
   \<and> \<not> has_stock_label
        (slugify (toLowerCase sample_builtins (trim (ascii ''Ships in 5 days''))))
   \<and> normaliseStockValue sample_builtins (Some (ascii ''Ships in 5 days'')) = ascii ''back_order''
   \<and> normaliseStockValue sample_builtins (Some (ascii ''Pre-Order'')) = ascii ''pre_order''
   \<and> normaliseStockValue sample_builtins (Some (ascii ''Call for price'')) =
       ascii ''call_for_price''
   \<and> normaliseStockValue sample_builtins (Some ([160] @ ascii ''Sold out'' @ [8195])) =
       ascii ''sold_out''
   \<and> normaliseStockValue sample_builtins (Some [160, 32, 65279]) = ascii ''unknown''"
proof -
  let ?B = sample_builtins
  let ?r = "ascii ''Ships in 5 days''"
  have a: "trim ?r \<noteq> []" by code_simp
  have d: "\<not> has_stock_label (slugify (toLowerCase ?B (trim ?r)))" by code_simp
  have e0: "\<not> regex_test (fst (STOCK_KEYWORDS ! 0)) True (toLowerCase ?B (trim ?r))"
    by code_simp
  have e1: "regex_test (fst (STOCK_KEYWORDS ! 1)) True (toLowerCase ?B (trim ?r))"
    by code_simp
  have l: "1 < length STOCK_KEYWORDS" by code_simp
  have s: "snd (STOCK_KEYWORDS ! 1) = ascii ''back_order''" by code_simp
  note T = normaliseStockValue_labels_then_keywords [where B = ?B, unfolded Let_def]
  note lab = T [THEN conjunct2, THEN conjunct2, THEN conjunct1, rule_format,
      THEN conjunct2, THEN conjunct2, THEN conjunct1, rule_format]
  note kw = T [THEN conjunct2, THEN conjunct2, THEN conjunct1, rule_format,
      THEN conjunct2, THEN conjunct2, THEN conjunct2, rule_format, THEN conjunct1, rule_format]
  note none = T [THEN conjunct2, THEN conjunct2, THEN conjunct1, rule_format,
      THEN conjunct2, THEN conjunct2, THEN conjunct2, rule_format, THEN conjunct2, rule_format,
      THEN conjunct2, rule_format, THEN conjunct1]
  note blank = T [THEN conjunct2, THEN conjunct1, rule_format]
  have "normaliseStockValue ?B (Some ?r) = snd (STOCK_KEYWORDS ! 1)"
    by (rule kw [OF a d l]) (use e0 e1 in simp)
  then have k: "normaliseStockValue ?B (Some ?r) = ascii ''back_order''"
    by (simp only: s)
  let ?p = "ascii ''Pre-Order''"
  have p1: "trim ?p \<noteq> []" by code_simp
  have p2: "has_stock_label (slugify (toLowerCase ?B (trim ?p)))" by code_simp
  have p3: "slugify (toLowerCase ?B (trim ?p)) = ascii ''pre_order''" by code_simp
  have p: "normaliseStockValue ?B (Some ?p) = ascii ''pre_order''"
    using lab [OF p1 p2] by (simp only: p3)
  let ?q = "ascii ''Call for price''"
  have q1: "trim ?q \<noteq> []" by code_simp
  have q2: "\<not> has_stock_label (slugify (toLowerCase ?B (trim ?q)))" by code_simp
  have q3: "slugify (toLowerCase ?B (trim ?q)) = ascii ''call_for_price''" by code_simp
  have q4: "toLowerCase ?B (trim ?q) \<noteq> []" by code_simp
  have q5: "\<forall>i<length STOCK_KEYWORDS.
       \<not> regex_test (fst (STOCK_KEYWORDS ! i)) True (toLowerCase ?B (trim ?q))"
    by code_simp
  have q: "normaliseStockValue ?B (Some ?q) = ascii ''call_for_price''"
    using none [OF q1 q2 q5 [rule_format] q4] by (simp only: q3)
  let ?n = "[160] @ ascii ''Sold out'' @ [8195]"
  have n1: "trim ?n \<noteq> []" by code_simp
  have n2: "has_stock_label (slugify (toLowerCase ?B (trim ?n)))" by code_simp
  have n3: "slugify (toLowerCase ?B (trim ?n)) = ascii ''sold_out''" by code_simp
  have n: "normaliseStockValue ?B (Some ?n) = ascii ''sold_out''"
    using lab [OF n1 n2] by (simp only: n3)
  have w1: "trim [160, 32, 65279] = []" by code_simp
  have w: "normaliseStockValue ?B (Some [160, 32, 65279]) = ascii ''unknown''"
    by (rule blank [OF w1])
  show ?thesis
    using a d k p q n w by blast
qed

text \<open>
  C3 as stated fails: the first keyword pattern matches \<open>sold out\<close>, yet the result is the
  label \<open>sold_out\<close>, not the keyword category \<open>out_of_stock\<close>; and the non-empty text
  \<open>unknown\<close> yields \<open>unknown\<close>.
\<close>

theorem normaliseStockValue_counterexample:
  "regex_test (fst (STOCK_KEYWORDS ! 0)) True
      (toLowerCase sample_builtins (trim (ascii ''sold out'')))
   \<and> snd (STOCK_KEYWORDS ! 0) = ascii ''out_of_stock''
   \<and> normaliseStockValue sample_builtins (Some (ascii ''sold out'')) = ascii ''sold_out''
   \<and> normaliseStockValue sample_builtins (Some (ascii ''sold out'')) \<noteq> ascii ''out_of_stock''
   \<and> trim (ascii ''unknown'') \<noteq> []
   \<and> normaliseStockValue sample_builtins (Some (ascii ''unknown'')) = ascii ''unknown''"
  by code_simp

section \<open>Category URL canonicalisation: results\<close>




















section \<open>Change records: results\<close>

lemma ascii_append: "ascii a @ ascii b = ascii (a @ b)"
  by (simp add: ascii_def)

lemma lower_price: "toLowerCase B (ascii ''price'') = ascii ''price''"
  by (simp add: toLowerCase_def ascii_def ascii_lower_def)

lemma resolve_unread_fields:
  "resolveChangeValue B (Some (c\<lparr>direction := d\<rparr>)) sd = resolveChangeValue B (Some c) sd"
  "resolveChangeValue B (Some (c\<lparr>is_baseline := b\<rparr>)) sd = resolveChangeValue B (Some c) sd"
  by (cases sd;
      simp add: resolveChangeValue_def change_type_name_def side_value_def
        side_value_raw_def Let_def)+

lemma formatDelta_unread_fields:
  "formatDelta B (Some (c\<lparr>direction := d\<rparr>)) = formatDelta B (Some c)"
  "formatDelta B (Some (c\<lparr>is_baseline := b\<rparr>)) = formatDelta B (Some c)"
  by (simp_all add: formatDelta_def resolve_unread_fields change_type_name_def Let_def)


lemma formatDelta_stored:
  assumes "change_type_name B c = ascii ''price''" "ToNumber B (difference c) = Fin x"
  shows "formatDelta B (Some c) = shown_delta B x"
  using assms by (simp add: formatDelta_def Let_def)




text \<open>
  The tolerance of \<open>formatDelta\<close>: no delta is presented when the stored difference, as
  \<open>Number\<close> reads it, is below 1e-9 in absolute value.
\<close>

lemma formatDelta_tolerance:
  "ToNumber B (difference c) = Fin x \<Longrightarrow> \<bar>x\<bar> < 1 / 10 ^ 9 \<Longrightarrow> formatDelta B (Some c) = None"
  by (simp add: formatDelta_def Let_def)












lemma tiny_type: "toLowerCase B (js_string B (change_type tiny_delta)) = ascii ''price''"
  by (simp add: tiny_delta_def lower_price)

text \<open>
  C2. A price record whose delta is below 1e-9 in absolute value is to be reported with no
  delta. \<open>formatDelta\<close> does so; \<open>buildDifferenceBadge\<close> compares the delta with zero
  only, and for a stored difference of 5e-10 it builds an \<open>up\<close> badge.
\<close>

theorem buildDifferenceBadge_without_tolerance:
  "formatDelta B (Some tiny_delta) = None
   \<and> buildDifferenceBadge B (Some tiny_delta) False =
       Some \<lparr>className = Some (ascii ''change-card__delta change-card__delta--up''),
             textContent = ascii ''+'' @ formatCurrency B (Fin (1 / (2 * 10 ^ 9))),
             badge_title =
               ascii ''Price increased by '' @ formatCurrency B (Fin (1 / (2 * 10 ^ 9))),
             dataset_baseline = None,
             dataset_direction = Some (ascii ''up'')\<rparr>"
proof
  have "ToNumber B (difference tiny_delta) = Fin (1 / (2 * 10 ^ 9))"
    by (simp add: tiny_delta_def)
  then show "formatDelta B (Some tiny_delta) = None"
    by (rule formatDelta_tolerance) simp
  have "price_badge B tiny_delta False =
       Some \<lparr>className = Some (ascii ''change-card__delta change-card__delta--up''),
             textContent = ascii ''+'' @ formatCurrency B (Fin (1 / (2 * 10 ^ 9))),
             badge_title =
               ascii ''Price increased by '' @ formatCurrency B (Fin (1 / (2 * 10 ^ 9))),
             dataset_baseline = None,
             dataset_direction = Some (ascii ''up'')\<rparr>"
    by (simp add: price_badge_def Let_def tiny_delta_def ascii_append)
  moreover have "truthy (change_type tiny_delta)" "\<not> truthy (is_baseline tiny_delta)"
    by (simp_all add: tiny_delta_def)
  ultimately show "buildDifferenceBadge B (Some tiny_delta) False =
       Some \<lparr>className = Some (ascii ''change-card__delta change-card__delta--up''),
             textContent = ascii ''+'' @ formatCurrency B (Fin (1 / (2 * 10 ^ 9))),
             badge_title =
               ascii ''Price increased by '' @ formatCurrency B (Fin (1 / (2 * 10 ^ 9))),
             dataset_baseline = None,
             dataset_direction = Some (ascii ''up'')\<rparr>"
    using tiny_type by (simp add: buildDifferenceBadge_def)
qed

text \<open>
  In \<open>buildDifferenceBadge\<close> and \<open>describeDifference\<close> the baseline branch comes first: a
  baseline record with a change type gets the baseline badge and label whatever its
  difference and values are, and \<open>describeDifference\<close> answers \<open>First snapshot\<close>.
\<close>

lemma buildDifferenceBadge_baseline_first:
  assumes "truthy (is_baseline c)"
  shows "truthy (change_type c) \<Longrightarrow>
         buildDifferenceBadge B (Some c) asText =
           Some \<lparr>className =
                   (if asText then None
                    else Some (ascii ''change-card__delta change-card__delta--new'')),
                 textContent = getBaselineLabel B (Some c),
                 badge_title = getBaselineDescription B (Some c),
                 dataset_baseline = Some (ascii ''true''),
                 dataset_direction = None\<rparr>"
    and "describeDifference B (Some c) = Some (ascii ''First snapshot'')"
  using assms by (simp_all add: buildDifferenceBadge_def describeDifference_def)

lemma first_price_type: "toLowerCase B (js_string B (change_type first_price)) = ascii ''price''"
  by (simp add: first_price_def lower_price)

text \<open>
  C5. A baseline record is to be rendered with the baseline badge and label instead of a
  numeric price delta. \<open>formatDelta\<close>, from which the change card and the table cell take
  what they show, never reads \<open>is_baseline\<close>: for the first observation of a price of
  19.99 it presents an increase of that amount with the direction \<open>up\<close>, and the table
  cell shows it (with no stored difference the cell shows a dash, as for any record without
  a delta), while \<open>buildDifferenceBadge\<close>, which no renderer calls, gives the same
  record the baseline badge \<open>New Price\<close>.
\<close>

theorem formatDelta_ignores_baseline:
  "formatDelta B (Some (c\<lparr>is_baseline := b\<rparr>)) = formatDelta B (Some c)
   \<and> buildDeltaCell B (Some (c\<lparr>is_baseline := b\<rparr>)) = buildDeltaCell B (Some c)
   \<and> truthy (is_baseline first_price)
   \<and> formatDelta B (Some first_price) =
       Some \<lparr>delta_text = ascii ''+'' @ formatCurrency B (Fin 19.99),
             delta_direction = ascii ''up'',
             delta_title = ascii ''Price increased by '' @ formatCurrency B (Fin 19.99)\<rparr>
   \<and> cell_textContent (buildDeltaCell B (Some first_price)) =
       ascii ''+'' @ formatCurrency B (Fin 19.99)
   \<and> cell_className (buildDeltaCell B (Some first_price)) =
       ascii ''change-table__delta change-table__difference change-values delta-cell change-table__difference--up''
   \<and> buildDeltaCell B (Some (first_price\<lparr>difference := Null\<rparr>)) =
       \<lparr>cell_className =
          ascii ''change-table__delta change-table__difference change-values delta-cell'',
        cell_textContent = em_dash, cell_title = None\<rparr>
   \<and> buildDifferenceBadge B (Some first_price) False =
       Some \<lparr>className = Some (ascii ''change-card__delta change-card__delta--new''),
             textContent = ascii ''New Price'',
             badge_title = ascii ''First price snapshot captured for this product.'',
             dataset_baseline = Some (ascii ''true''),
             dataset_direction = None\<rparr>
   \<and> describeDifference B (Some first_price) = Some (ascii ''First snapshot'')"
proof -
  have "change_type_name B (first_price\<lparr>difference := Null\<rparr>) = ascii ''price''"
    by (simp add: change_type_name_def first_price_def js_or_def lower_price)
  then have "formatDelta B (Some (first_price\<lparr>difference := Null\<rparr>)) = None"
    by (simp add: formatDelta_def Let_def)
  then have z: "buildDeltaCell B (Some (first_price\<lparr>difference := Null\<rparr>)) =
       \<lparr>cell_className =
          ascii ''change-table__delta change-table__difference change-values delta-cell'',
        cell_textContent = em_dash, cell_title = None\<rparr>"
    by (simp add: buildDeltaCell_def)
  have a: "formatDelta B (Some (c\<lparr>is_baseline := b\<rparr>)) = formatDelta B (Some c)"
    by (rule formatDelta_unread_fields)
  have c: "buildDeltaCell B (Some (c\<lparr>is_baseline := b\<rparr>)) = buildDeltaCell B (Some c)"
    by (simp add: buildDeltaCell_def formatDelta_unread_fields)
  have t: "truthy (is_baseline first_price)" "truthy (change_type first_price)"
    by (simp_all add: first_price_def)
  have n: "change_type_name B first_price = ascii ''price''"
    by (simp add: change_type_name_def first_price_def js_or_def lower_price)
  have "ToNumber B (difference first_price) = Fin 19.99"
    by (simp add: first_price_def)
  with n have "formatDelta B (Some first_price) = shown_delta B 19.99"
    by (rule formatDelta_stored)
  then have f: "formatDelta B (Some first_price) =
       Some \<lparr>delta_text = ascii ''+'' @ formatCurrency B (Fin 19.99),
             delta_direction = ascii ''up'',
             delta_title = ascii ''Price increased by '' @ formatCurrency B (Fin 19.99)\<rparr>"
    by (simp add: ascii_append)
  have x: "cell_textContent (buildDeltaCell B (Some first_price)) =
       ascii ''+'' @ formatCurrency B (Fin 19.99)"
    by (simp add: buildDeltaCell_def f)
  have y: "cell_className (buildDeltaCell B (Some first_price)) =
       ascii ''change-table__delta change-table__difference change-values delta-cell change-table__difference--up''"
    by (simp add: buildDeltaCell_def f ascii_append)
  have bt: "baseline_type B (Some first_price) = ascii ''price''"
    using t by (simp add: baseline_type_def first_price_type)
  have l: "getBaselineLabel B (Some first_price) = ascii ''New Price''"
    "getBaselineDescription B (Some first_price) =
       ascii ''First price snapshot captured for this product.''"
    by (simp_all add: getBaselineLabel_def getBaselineDescription_def bt)
  have g: "buildDifferenceBadge B (Some first_price) False =
       Some \<lparr>className = Some (ascii ''change-card__delta change-card__delta--new''),
             textContent = ascii ''New Price'',
             badge_title = ascii ''First price snapshot captured for this product.'',
             dataset_baseline = Some (ascii ''true''),
             dataset_direction = None\<rparr>"
    using buildDifferenceBadge_baseline_first(1) [OF t, of B False] by (simp add: l)
  have h: "describeDifference B (Some first_price) = Some (ascii ''First snapshot'')"
    using t(1) by (rule buildDifferenceBadge_baseline_first(2))
  show ?thesis
    using a c t(1) f x y z g h by blast
qed

section \<open>Sorting the change list: results\<close>

lemma mset_js_insert: "mset (js_insert cmp x ys) = add_mset x (mset ys)"
  by (induction ys) auto

lemma mset_js_sort: "mset (js_sort cmp xs) = mset xs"
  by (induction xs) (auto simp: js_sort_def mset_js_insert)

lemma set_js_insert: "set (js_insert cmp x ys) = insert x (set ys)"
  by (induction ys) auto

lemma sorted_js_insert:
  assumes total: "\<And>a b. cmp a b \<le> 0 \<or> cmp b a \<le> 0"
    and trans: "\<And>a b c. cmp a b \<le> 0 \<Longrightarrow> cmp b c \<le> 0 \<Longrightarrow> cmp a c \<le> 0"
    and "sorted_wrt (\<lambda>a b. cmp a b \<le> 0) ys"
  shows "sorted_wrt (\<lambda>a b. cmp a b \<le> 0) (js_insert cmp x ys)"
  using assms(3)
proof (induction ys)
  case Nil
  then show ?case by simp
next
  case (Cons y ys)
  show ?case
  proof (cases "cmp x y \<le> 0")
    case True
    then have "\<forall>z \<in> set ys. cmp x z \<le> 0"
      using Cons.prems trans by auto
    then show ?thesis using True Cons.prems by simp
  next
    case False
    then have "cmp y x \<le> 0" using total [of x y] by simp
    then show ?thesis
      using False Cons by (auto simp: set_js_insert)
  qed
qed

lemma sorted_js_sort:
  assumes "\<And>a b. cmp a b \<le> 0 \<or> cmp b a \<le> 0"
    and "\<And>a b c. cmp a b \<le> 0 \<Longrightarrow> cmp b c \<le> 0 \<Longrightarrow> cmp a c \<le> 0"
  shows "sorted_wrt (\<lambda>a b. cmp a b \<le> 0) (js_sort cmp xs)"
proof (induction xs)
  case Nil
  then show ?case by (simp add: js_sort_def)
next
  case (Cons x xs)
  have "js_sort cmp (x # xs) = js_insert cmp x (js_sort cmp xs)"
    by (simp add: js_sort_def)
  then show ?case
    using sorted_js_insert [of cmp "js_sort cmp xs" x] assms Cons by simp
qed

lemma title_compare_total:
  assumes "\<forall>a b. locale_compare B a b \<le> 0 \<or> locale_compare B b a \<le> 0"
  shows "title_compare B a b \<le> 0 \<or> title_compare B b a \<le> 0"
  using assms by (auto simp: title_compare_def Let_def)

lemma title_compare_trans:
  assumes "\<forall>a b c. locale_compare B a b \<le> 0 \<and> locale_compare B b c \<le> 0
            \<longrightarrow> locale_compare B a c \<le> 0"
    and "title_compare B a b \<le> 0" "title_compare B b c \<le> 0"
  shows "title_compare B a c \<le> 0"
proof -
  have t: "locale_compare B x y \<le> 0 \<Longrightarrow> locale_compare B y z \<le> 0
        \<Longrightarrow> locale_compare B x z \<le> 0" for x y z
    using assms(1) by blast
  show ?thesis
    using assms(2,3) t [of "sort_title B a" "sort_title B b" "sort_title B c"]
    by (auto simp: title_compare_def Let_def split: if_splits)
qed

text \<open>
  C7. With any sort mode other than \<open>title\<close> the list is returned as it was received.
  With \<open>title\<close>, and a \<open>localeCompare\<close> that is a consistent comparator (total and
  transitive), the result is a rearrangement of the list in which no record without a
  title precedes a record with one, and in which the records with titles are in the order
  of \<open>localeCompare\<close> on their lower-cased titles.
\<close>

theorem sortChanges_title_order:
  "(sortMode \<noteq> ascii ''title'' \<longrightarrow> sortChanges B sortMode changes = changes)
   \<and> ((\<forall>a b. locale_compare B a b \<le> 0 \<or> locale_compare B b a \<le> 0)
       \<and> (\<forall>a b c. locale_compare B a b \<le> 0 \<and> locale_compare B b c \<le> 0
              \<longrightarrow> locale_compare B a c \<le> 0)
       \<longrightarrow> mset (sortChanges B (ascii ''title'') changes) = mset changes
           \<and> (\<forall>i j. i < j \<and> j < length (sortChanges B (ascii ''title'') changes) \<longrightarrow>
                 (sort_title B (sortChanges B (ascii ''title'') changes ! i) = []
                    \<longrightarrow> sort_title B (sortChanges B (ascii ''title'') changes ! j) = [])
                 \<and> (sort_title B (sortChanges B (ascii ''title'') changes ! i) \<noteq> []
                    \<and> sort_title B (sortChanges B (ascii ''title'') changes ! j) \<noteq> []
                    \<longrightarrow> locale_compare B (sort_title B (sortChanges B (ascii ''title'') changes ! i))
                          (sort_title B (sortChanges B (ascii ''title'') changes ! j)) \<le> 0)))"
proof (intro conjI impI)
  assume "sortMode \<noteq> ascii ''title''"
  then show "sortChanges B sortMode changes = changes"
    by (simp add: sortChanges_def)
next
  assume a: "(\<forall>a b. locale_compare B a b \<le> 0 \<or> locale_compare B b a \<le> 0)
       \<and> (\<forall>a b c. locale_compare B a b \<le> 0 \<and> locale_compare B b c \<le> 0
              \<longrightarrow> locale_compare B a c \<le> 0)"
  define r where "r = sortChanges B (ascii ''title'') changes"
  have r: "r = js_sort (title_compare B) changes"
    by (cases changes) (simp_all add: r_def sortChanges_def js_sort_def)
  show "mset (sortChanges B (ascii ''title'') changes) = mset changes"
    using r by (simp add: r_def [symmetric] mset_js_sort)
  have "sorted_wrt (\<lambda>x y. title_compare B x y \<le> 0) r"
    unfolding r
    by (rule sorted_js_sort) (use a title_compare_total title_compare_trans in blast)+
  then have s: "title_compare B (r ! i) (r ! j) \<le> 0" if "i < j" "j < length r" for i j
    using that by (simp add: sorted_wrt_iff_nth_less)
  have "(sort_title B (r ! i) = [] \<longrightarrow> sort_title B (r ! j) = [])
      \<and> (sort_title B (r ! i) \<noteq> [] \<and> sort_title B (r ! j) \<noteq> []
          \<longrightarrow> locale_compare B (sort_title B (r ! i)) (sort_title B (r ! j)) \<le> 0)"
    if "i < j \<and> j < length r" for i j
    using s [of i j] that by (auto simp: title_compare_def Let_def split: if_splits)
  then show "\<forall>i j. i < j \<and> j < length (sortChanges B (ascii ''title'') changes) \<longrightarrow>
                 (sort_title B (sortChanges B (ascii ''title'') changes ! i) = []
                    \<longrightarrow> sort_title B (sortChanges B (ascii ''title'') changes ! j) = [])
                 \<and> (sort_title B (sortChanges B (ascii ''title'') changes ! i) \<noteq> []
                    \<and> sort_title B (sortChanges B (ascii ''title'') changes ! j) \<noteq> []
                    \<longrightarrow> locale_compare B (sort_title B (sortChanges B (ascii ''title'') changes ! i))
                          (sort_title B (sortChanges B (ascii ''title'') changes ! j)) \<le> 0)"
    unfolding r_def by blast
qed


lemma sample_compare_consistent:
  "(\<forall>a b. locale_compare sample_builtins a b \<le> 0 \<or> locale_compare sample_builtins b a \<le> 0)
   \<and> (\<forall>a b c. locale_compare sample_builtins a b \<le> 0 \<and> locale_compare sample_builtins b c \<le> 0
          \<longrightarrow> locale_compare sample_builtins a c \<le> 0)"
  by (auto simp: sample_builtins_def split: if_splits)

lemma sample_lower_titles:
  "toLowerCase sample_builtins [] = []"
  "toLowerCase sample_builtins (ascii ''Bolt'') = ascii ''bolt''"
  "toLowerCase sample_builtins (ascii ''anchor'') = ascii ''anchor''"
  "ascii ''Bolt'' \<noteq> []" "ascii ''anchor'' \<noteq> []"
  by code_simp+

lemma sample_sort_title:
  "sort_title sample_builtins untitled_change = []"
  "sort_title sample_builtins bolt_change = ascii ''bolt''"
  "sort_title sample_builtins anchor_change = ascii ''anchor''"
  by (simp_all add: sort_title_def untitled_change_def bolt_change_def anchor_change_def
      js_or_def sample_lower_titles)

lemma sample_order:
  "\<not> ascii ''bolt'' < ascii ''anchor''" "ascii ''anchor'' < ascii ''bolt''"
  "ascii ''bolt'' \<noteq> []" "ascii ''anchor'' \<noteq> []" "ascii ''bolt'' \<noteq> ascii ''anchor''"
  by code_simp+

lemma sample_locale_compare:
  "locale_compare sample_builtins a b = (if a < b then - 1 else if a = b then 0 else 1)"
  by (simp add: sample_builtins_def)

lemma sample_title_compare:
  "title_compare sample_builtins bolt_change anchor_change = 1"
  "title_compare sample_builtins untitled_change anchor_change = 1"
  "title_compare sample_builtins untitled_change bolt_change = 1"
  by (simp_all add: title_compare_def Let_def sample_sort_title sample_locale_compare
      sample_order)

theorem sortChanges_title_order_witness:
  "sortChanges sample_builtins (ascii ''recent'') [untitled_change, bolt_change, anchor_change] =
     [untitled_change, bolt_change, anchor_change]
   \<and> sortChanges sample_builtins (ascii ''title'') [untitled_change, bolt_change, anchor_change] =
     [anchor_change, bolt_change, untitled_change]
   \<and> mset (sortChanges sample_builtins (ascii ''title'') [untitled_change, bolt_change, anchor_change]) =
     mset [untitled_change, bolt_change, anchor_change]"
proof -
  let ?xs = "[untitled_change, bolt_change, anchor_change]"
  have a: "ascii ''recent'' \<noteq> ascii ''title''" by (simp add: ascii_def)
  have b: "sortChanges sample_builtins (ascii ''title'') ?xs =
     [anchor_change, bolt_change, untitled_change]"
    by (simp add: sortChanges_def js_sort_def sample_title_compare)
  show ?thesis
    using sortChanges_title_order [where B = sample_builtins and sortMode = "ascii ''recent''"
        and changes = ?xs] a b sample_compare_consistent
    by blast
qed

section \<open>History sessions: results\<close>

lemma keeps_entry_iff:
  "keeps_entry fs e \<longleftrightarrow>
     (trim (search fs) \<noteq> [] \<longrightarrow> str_includes (search_index e) (trim (search fs)))
     \<and> (\<forall>s. startDate fs = Some s \<longrightarrow> (\<exists>t. timestamp_obj e = Some t \<and> s \<le> t))
     \<and> (\<forall>d. endDate fs = Some d \<longrightarrow> (\<exists>t. timestamp_obj e = Some t \<and> t \<le> d))
     \<and> (minItems fs \<noteq> 0 \<longrightarrow> minItems fs \<le> items_count e)
     \<and> (site fs \<noteq> [] \<longrightarrow> site fs \<in> set (host_list e))"
  by (cases "startDate fs"; cases "endDate fs"; cases "timestamp_obj e")
    (auto simp: keeps_entry_def Let_def)

text \<open>
  C6. An entry is in the filtered list if and only if it is in the history and satisfies
  every active filter: the trimmed search text occurs in its search index, its time is
  known and not before the start date, known and not after the end date, its item count is
  at least the minimum, and the site is among its hosts. With no filter active, and in the
  default state, the list is unchanged.
\<close>

theorem applyFilters_conjunctive:
  "(e \<in> set (applyFilters fs historyData) \<longleftrightarrow>
      e \<in> set historyData
      \<and> (trim (search fs) \<noteq> [] \<longrightarrow> str_includes (search_index e) (trim (search fs)))
      \<and> (\<forall>s. startDate fs = Some s \<longrightarrow> (\<exists>t. timestamp_obj e = Some t \<and> s \<le> t))
      \<and> (\<forall>d. endDate fs = Some d \<longrightarrow> (\<exists>t. timestamp_obj e = Some t \<and> t \<le> d))
      \<and> (minItems fs \<noteq> 0 \<longrightarrow> minItems fs \<le> items_count e)
      \<and> (site fs \<noteq> [] \<longrightarrow> site fs \<in> set (host_list e)))
   \<and> (trim (search fs) = [] \<and> startDate fs = None \<and> endDate fs = None \<and> minItems fs = 0
        \<and> site fs = [] \<longrightarrow> applyFilters fs historyData = historyData)
   \<and> applyFilters defaultFilterState historyData = historyData"
proof (intro conjI impI)
  show "e \<in> set (applyFilters fs historyData) \<longleftrightarrow>
      e \<in> set historyData
      \<and> (trim (search fs) \<noteq> [] \<longrightarrow> str_includes (search_index e) (trim (search fs)))
      \<and> (\<forall>s. startDate fs = Some s \<longrightarrow> (\<exists>t. timestamp_obj e = Some t \<and> s \<le> t))
      \<and> (\<forall>d. endDate fs = Some d \<longrightarrow> (\<exists>t. timestamp_obj e = Some t \<and> t \<le> d))
      \<and> (minItems fs \<noteq> 0 \<longrightarrow> minItems fs \<le> items_count e)
      \<and> (site fs \<noteq> [] \<longrightarrow> site fs \<in> set (host_list e))"
    unfolding applyFilters_def set_filter mem_Collect_eq keeps_entry_iff by (rule refl)
next
  assume "trim (search fs) = [] \<and> startDate fs = None \<and> endDate fs = None \<and> minItems fs = 0
        \<and> site fs = []"
  then have "keeps_entry fs x" for x
    by (simp add: keeps_entry_iff)
  then show "applyFilters fs historyData = historyData"
    by (simp add: applyFilters_def)
next
  have "keeps_entry defaultFilterState x" for x
    by (simp add: keeps_entry_iff defaultFilterState_def trim_def)
  then show "applyFilters defaultFilterState historyData = historyData"
    by (simp add: applyFilters_def)
qed

lemma sample_filter_trim: "trim (search sample_filter) = ascii ''shop''"
  by code_simp

lemma sample_filter_search:
  "str_includes (search_index session_a) (ascii ''shop'')"
  "\<not> str_includes (search_index session_b) (ascii ''shop'')"
  by code_simp+

theorem applyFilters_conjunctive_witness:
  "session_a \<in> set (applyFilters sample_filter [session_a, session_b])
   \<and> session_b \<notin> set (applyFilters sample_filter [session_a, session_b])
   \<and> applyFilters defaultFilterState [session_a, session_b] = [session_a, session_b]"
proof -
  have a: "startDate sample_filter = Some 1690000000000" "endDate sample_filter = None"
    "minItems sample_filter = 10" "site sample_filter = ascii ''shop.example.com''"
    by (simp_all add: sample_filter_def)
  have b: "timestamp_obj session_a = Some 1700000000000" "items_count session_a = 12"
    "host_list session_a = [ascii ''shop.example.com'']"
    by (simp_all add: session_a_def)
  have "session_a \<in> set (applyFilters sample_filter [session_a, session_b])"
    using applyFilters_conjunctive [where e = session_a and fs = sample_filter
        and historyData = "[session_a, session_b]"]
    by (simp add: a b sample_filter_trim sample_filter_search)
  moreover have "session_b \<notin> set (applyFilters sample_filter [session_a, session_b])"
    using applyFilters_conjunctive [where e = session_b and fs = sample_filter
        and historyData = "[session_a, session_b]"]
    by (simp add: sample_filter_trim sample_filter_search)
  moreover have "applyFilters defaultFilterState [session_a, session_b] = [session_a, session_b]"
    using applyFilters_conjunctive [where historyData = "[session_a, session_b]"]
    by blast
  ultimately show ?thesis by blast
qed


lemma search_index_eq:
  "search_index (normalizeHistoryEntry B e) =
     join (ascii '' | '') (map (\<lambda>part. toLowerCase B (js_string B part))
       ([js_or (entry_id e) (Str []),
         Num (Fin (items_count (normalizeHistoryEntry B e))),
         Str (join (ascii '' '') (norm_urls (normalizeHistoryEntry B e))),
         Str (join (ascii '' '') (host_list (normalizeHistoryEntry B e))),
         Num (percent_off (normalizeHistoryEntry B e)),
         Num (absolute_off (normalizeHistoryEntry B e))]
        @ concat (map item_parts (take 25 (norm_items (normalizeHistoryEntry B e))))))"
  by (simp add: normalizeHistoryEntry_def Let_def)

lemma host_list_eq:
  "host_list (normalizeHistoryEntry B e) =
     foldl (add_host B) [] (norm_urls (normalizeHistoryEntry B e))"
  by (simp add: normalizeHistoryEntry_def Let_def)

lemma search_index_cong:
  assumes "entry_id e = entry_id e'"
    and "items_count (normalizeHistoryEntry B e) = items_count (normalizeHistoryEntry B e')"
    and "norm_urls (normalizeHistoryEntry B e) = norm_urls (normalizeHistoryEntry B e')"
    and "percent_off (normalizeHistoryEntry B e) = percent_off (normalizeHistoryEntry B e')"
    and "absolute_off (normalizeHistoryEntry B e) = absolute_off (normalizeHistoryEntry B e')"
    and "take 25 (norm_items (normalizeHistoryEntry B e)) =
         take 25 (norm_items (normalizeHistoryEntry B e'))"
  shows "search_index (normalizeHistoryEntry B e) = search_index (normalizeHistoryEntry B e')"
  unfolding search_index_eq host_list_eq using assms by simp

lemma search_index_beyond_25:
  assumes "length xs = 25" "length ys = length zs"
  shows "search_index (normalizeHistoryEntry B (e\<lparr>items := Some (xs @ ys)\<rparr>)) =
         search_index (normalizeHistoryEntry B (e\<lparr>items := Some (xs @ zs)\<rparr>))"
proof (rule search_index_cong)
  show "items_count (normalizeHistoryEntry B (e\<lparr>items := Some (xs @ ys)\<rparr>)) =
        items_count (normalizeHistoryEntry B (e\<lparr>items := Some (xs @ zs)\<rparr>))"
    using assms by (simp add: normalizeHistoryEntry_def Let_def split: jsnum.splits)
  show "take 25 (norm_items (normalizeHistoryEntry B (e\<lparr>items := Some (xs @ ys)\<rparr>))) =
        take 25 (norm_items (normalizeHistoryEntry B (e\<lparr>items := Some (xs @ zs)\<rparr>)))"
    using assms by (simp add: normalizeHistoryEntry_def Let_def)
qed (simp_all add: normalizeHistoryEntry_def Let_def)

text \<open>
  C9. Two entries with the same id, item count, target URLs, discount rules and first 25
  items have the same search index (the host names are computed from the URLs). Hence, for
  a session of more than 25 items, whether a query matches does not depend on the items
  after the 25th: a query that only their titles or sites contain finds nothing.
\<close>

theorem search_index_first_25:
  "(entry_id e = entry_id e'
      \<and> items_count (normalizeHistoryEntry B e) = items_count (normalizeHistoryEntry B e')
      \<and> norm_urls (normalizeHistoryEntry B e) = norm_urls (normalizeHistoryEntry B e')
      \<and> percent_off (normalizeHistoryEntry B e) = percent_off (normalizeHistoryEntry B e')
      \<and> absolute_off (normalizeHistoryEntry B e) = absolute_off (normalizeHistoryEntry B e')
      \<and> take 25 (norm_items (normalizeHistoryEntry B e)) =
          take 25 (norm_items (normalizeHistoryEntry B e'))
      \<longrightarrow> search_index (normalizeHistoryEntry B e) = search_index (normalizeHistoryEntry B e'))
   \<and> (length xs = 25 \<and> length ys = length zs \<longrightarrow>
        (\<forall>q. keeps_entry (defaultFilterState\<lparr>search := q\<rparr>)
                (normalizeHistoryEntry B (e\<lparr>items := Some (xs @ ys)\<rparr>)) =
             keeps_entry (defaultFilterState\<lparr>search := q\<rparr>)
                (normalizeHistoryEntry B (e\<lparr>items := Some (xs @ zs)\<rparr>))))"
proof (intro conjI impI allI)
  assume "entry_id e = entry_id e'
      \<and> items_count (normalizeHistoryEntry B e) = items_count (normalizeHistoryEntry B e')
      \<and> norm_urls (normalizeHistoryEntry B e) = norm_urls (normalizeHistoryEntry B e')
      \<and> percent_off (normalizeHistoryEntry B e) = percent_off (normalizeHistoryEntry B e')
      \<and> absolute_off (normalizeHistoryEntry B e) = absolute_off (normalizeHistoryEntry B e')
      \<and> take 25 (norm_items (normalizeHistoryEntry B e)) =
          take 25 (norm_items (normalizeHistoryEntry B e'))"
  then show "search_index (normalizeHistoryEntry B e) = search_index (normalizeHistoryEntry B e')"
    by (intro search_index_cong) simp_all
next
  fix q
  assume "length xs = 25 \<and> length ys = length zs"
  then have "search_index (normalizeHistoryEntry B (e\<lparr>items := Some (xs @ ys)\<rparr>)) =
         search_index (normalizeHistoryEntry B (e\<lparr>items := Some (xs @ zs)\<rparr>))"
    by (intro search_index_beyond_25) simp_all
  then show "keeps_entry (defaultFilterState\<lparr>search := q\<rparr>)
                (normalizeHistoryEntry B (e\<lparr>items := Some (xs @ ys)\<rparr>)) =
             keeps_entry (defaultFilterState\<lparr>search := q\<rparr>)
                (normalizeHistoryEntry B (e\<lparr>items := Some (xs @ zs)\<rparr>))"
    by (simp add: keeps_entry_def defaultFilterState_def Let_def)
qed

lemma long_session_items:
  "long_session\<lparr>items := Some (replicate 25 widget_item @ [zebra_item])\<rparr> = long_session"
  by (simp add: long_session_def)

lemma zebra_absent:
  "\<not> keeps_entry (defaultFilterState\<lparr>search := ascii ''zebra''\<rparr>)
       (normalizeHistoryEntry sample_builtins
          (long_session\<lparr>items := Some (replicate 25 widget_item @ [NotAnObject])\<rparr>))"
  by code_simp

lemma widget_present:
  "keeps_entry (defaultFilterState\<lparr>search := ascii ''widget''\<rparr>)
       (normalizeHistoryEntry sample_builtins long_session)"
  by code_simp

theorem search_index_first_25_witness:
  "length (replicate 25 widget_item) = 25
   \<and> \<not> keeps_entry (defaultFilterState\<lparr>search := ascii ''zebra''\<rparr>)
       (normalizeHistoryEntry sample_builtins long_session)
   \<and> keeps_entry (defaultFilterState\<lparr>search := ascii ''widget''\<rparr>)
       (normalizeHistoryEntry sample_builtins long_session)"
proof -
  have "keeps_entry (defaultFilterState\<lparr>search := ascii ''zebra''\<rparr>)
          (normalizeHistoryEntry sample_builtins
             (long_session\<lparr>items := Some (replicate 25 widget_item @ [zebra_item])\<rparr>)) =
        keeps_entry (defaultFilterState\<lparr>search := ascii ''zebra''\<rparr>)
          (normalizeHistoryEntry sample_builtins
             (long_session\<lparr>items := Some (replicate 25 widget_item @ [NotAnObject])\<rparr>))"
    using search_index_first_25 [where B = sample_builtins and e = long_session
        and xs = "replicate 25 widget_item" and ys = "[zebra_item]" and zs = "[NotAnObject]"]
    by simp
  then show ?thesis
    using zebra_absent widget_present by (simp add: long_session_items)
qed

end
